theory Spec2Isabelle
  imports Main "HOL-Library.Sublist" "HOL-Library.Multiset" "HOL-Library.AList"
begin

section \<open>Errors and the result model\<close>

text \<open>
  Go errors as values. \<open>errTestCaseFailed\<close> is the package's sentinel, recognised by
  identity (\<open>err == errTestCaseFailed\<close>); \<open>errors_New\<close> stands for \<open>errors.New\<close> and
  \<open>fmt.Errorf\<close> (an error made from a text), \<open>errors_Wrap\<close> for \<open>errors.Wrap\<close> and
  \<open>errors.Wrapf\<close> of github.com/pkg/errors (a cause and a message). A wrapped sentinel
  is not the sentinel.
\<close>

datatype error =
    errTestCaseFailed
  | errors_New string
  | errors_Wrap error string

text \<open>
  \<open>err.Error()\<close>. The text of the sentinel is declared outside the given sources and is
  the first argument.
\<close>

fun Error_text :: "string \<Rightarrow> error \<Rightarrow> string" where
  "Error_text m errTestCaseFailed = m"
| "Error_text m (errors_New s) = s"
| "Error_text m (errors_Wrap e s) = s @ '': '' @ Error_text m e"

text \<open>
  Modelled from the spec: \<open>testrunner.TestResult\<close> is declared outside the given sources.
  The fields are the ones the spec's data model lists and the three files read and
  write. The duration is an \<open>int64\<close> count of nanoseconds that no code here does
  arithmetic on. The pipeline runner and \<open>ReportXUnit\<close> call the duration field
  \<open>TimeTaken\<close>, \<open>reportXUnitFormat\<close> calls it \<open>TimeElapsed\<close>.
\<close>

record TestResult =
  TestType :: string
  Package :: string
  DataStream :: string
  Name :: string
  TimeElapsed :: int
  ErrorMsg :: string
  FailureMsg :: string
  FailureDetails :: string


section \<open>The pipeline test runner\<close>

subsection \<open>Options, collaborators and the state of a run\<close>

record TestFolder =
  Path :: string
  Package_f :: string
  DataStream_f :: string

record 'es TestOptions =
  TestFolder :: TestFolder
  ESClient :: 'es
  GenerateTestResult :: bool

text \<open>
  What a run does to the outside, in order: the calls to the remote engine, the writes
  of golden files, the line printed per test case and the warnings logged.
\<close>

datatype event =
    Install string
  | Uninstall "string list"
  | Simulate string string
  | WriteTestResult string
  | Printf string
  | Warnf string

record 'w sys =
  world :: 'w
  events :: "event list"

text \<open>
  The functions and constants of the package and of the Go library that the runner calls
  and that are declared outside the given sources, as parameters. \<open>'w\<close> is the state
  they act on (the file system, the remote engine, the clock), \<open>'tc\<close> the package's
  \<open>testCase\<close>, \<open>'cfg\<close> the configuration of a raw test case and \<open>'res\<close> the
  package's \<open>testResult\<close>. A call that only reads takes the state; a call that changes
  it returns the new one. \<open>ioutil_ReadDir\<close> gives the \<open>Name()\<close> of each entry, in the
  order of the listing.
\<close>

record ('w, 'es, 'tc, 'cfg, 'res) collaborators =
  expectedTestResultSuffix :: string
  configTestSuffix :: string
  errTestCaseFailed_text :: string
  ioutil_ReadDir :: "'w \<Rightarrow> string \<Rightarrow> error + string list"
  ioutil_ReadFile :: "'w \<Rightarrow> string \<Rightarrow> error + string"
  filepath_Join :: "string \<Rightarrow> string \<Rightarrow> string"
  FindDataStreamRootForPath :: "'w \<Rightarrow> string \<Rightarrow> error + (string \<times> bool)"
  installIngestPipelines :: "'w \<Rightarrow> 'es \<Rightarrow> string \<Rightarrow> (error + (string \<times> string list)) \<times> 'w"
  uninstallIngestPipelines :: "'w \<Rightarrow> 'es \<Rightarrow> string list \<Rightarrow> error option \<times> 'w"
  createTestCaseForEvents :: "string \<Rightarrow> string \<Rightarrow> error + 'tc"
  readConfigForTestCase :: "'w \<Rightarrow> string \<Rightarrow> error + 'cfg"
  createTestCaseForRawInput :: "string \<Rightarrow> string \<Rightarrow> 'cfg \<Rightarrow> error + 'tc"
  name :: "'tc \<Rightarrow> string"
  simulatePipelineProcessing :: "'w \<Rightarrow> 'es \<Rightarrow> string \<Rightarrow> 'tc \<Rightarrow> (error + 'res) \<times> 'w"
  writeTestResult :: "'w \<Rightarrow> string \<Rightarrow> 'res \<Rightarrow> error option \<times> 'w"
  compareResults :: "'w \<Rightarrow> string \<Rightarrow> 'res \<Rightarrow> error option"
  time_Now :: "'w \<Rightarrow> int"

subsection \<open>Library functions\<close>

text \<open>
  \<open>strings.HasSuffix\<close>:
  \<open>len(s) >= len(suffix) && s[len(s)-len(suffix):] == suffix\<close>.
\<close>

definition strings_HasSuffix :: "string \<Rightarrow> string \<Rightarrow> bool" where
  "strings_HasSuffix s suff \<longleftrightarrow>
     length s \<ge> length suff \<and> drop (length s - length suff) s = suff"

text \<open>
  \<open>filepath.Ext\<close> (with \<open>/\<close> the path separator): scanning from the end, the suffix
  that starts at the last dot of the last path element, or the empty string.
  \<open>Ext_scan\<close> takes what is left to scan, reversed, and the characters passed.
\<close>

fun Ext_scan :: "string \<Rightarrow> string \<Rightarrow> string" where
  "Ext_scan [] passed = []"
| "Ext_scan (c # cs) passed =
     (if c = CHR ''/'' then []
      else if c = CHR ''.'' then c # passed
      else Ext_scan cs (c # passed))"

definition filepath_Ext :: "string \<Rightarrow> string" where
  "filepath_Ext path = Ext_scan (rev path) []"

text \<open>
  \<open>Time.Sub\<close>: the difference, held to the range of a \<open>Duration\<close>.
\<close>

definition time_Sub :: "int \<Rightarrow> int \<Rightarrow> int" where
  "time_Sub t u = max (- (2 ^ 63)) (min (2 ^ 63 - 1) (t - u))"

subsection \<open>listTestCaseFiles\<close>

fun listTestCaseFiles_loop :: "string \<Rightarrow> string \<Rightarrow> string list \<Rightarrow> string list \<Rightarrow> string list" where
  "listTestCaseFiles_loop expSuffix cfgSuffix [] files = files"
| "listTestCaseFiles_loop expSuffix cfgSuffix (fi # fis) files =
     (if strings_HasSuffix fi expSuffix \<or> strings_HasSuffix fi cfgSuffix
      then listTestCaseFiles_loop expSuffix cfgSuffix fis files
      else listTestCaseFiles_loop expSuffix cfgSuffix fis (files @ [fi]))"

definition listTestCaseFiles ::
  "('w, 'es, 'tc, 'cfg, 'res) collaborators \<Rightarrow> 'es TestOptions \<Rightarrow> 'w \<Rightarrow> error + string list" where
  "listTestCaseFiles c options w =
     (case ioutil_ReadDir c w (Path (TestFolder options)) of
        Inl err \<Rightarrow>
          Inl (errors_Wrap err
                (''reading pipeline tests failed (path: '' @ Path (TestFolder options) @ '')''))
      | Inr fis \<Rightarrow>
          Inr (listTestCaseFiles_loop (expectedTestResultSuffix c) (configTestSuffix c) fis []))"

subsection \<open>loadTestCaseFile\<close>

definition loadTestCaseFile ::
  "('w, 'es, 'tc, 'cfg, 'res) collaborators \<Rightarrow> 'es TestOptions \<Rightarrow> string \<Rightarrow> 'w \<Rightarrow> error + 'tc" where
  "loadTestCaseFile c options testCaseFile w =
     (let testCasePath = filepath_Join c (Path (TestFolder options)) testCaseFile in
      case ioutil_ReadFile c w testCasePath of
        Inl err \<Rightarrow>
          Inl (errors_Wrap err (''reading input file failed (testCasePath: '' @ testCasePath @ '')''))
      | Inr testCaseData \<Rightarrow>
          (let ext = filepath_Ext testCaseFile in
           if ext = ''.json'' then
             (case createTestCaseForEvents c testCaseFile testCaseData of
                Inl err \<Rightarrow>
                  Inl (errors_Wrap err
                        (''creating test case for events failed (testCasePath: '' @ testCasePath @ '')''))
              | Inr tc \<Rightarrow> Inr tc)
           else if ext = ''.log'' then
             (case readConfigForTestCase c w testCasePath of
                Inl err \<Rightarrow>
                  Inl (errors_Wrap err
                        (''reading config for test case failed (testCasePath: '' @ testCasePath @ '')''))
              | Inr config \<Rightarrow>
                  (case createTestCaseForRawInput c testCaseFile testCaseData config of
                     Inl err \<Rightarrow>
                       Inl (errors_Wrap err
                             (''creating test case for events failed (testCasePath: '' @ testCasePath @ '')''))
                   | Inr tc \<Rightarrow> Inr tc))
           else Inl (errors_New (''unsupported extension for test case file (ext: '' @ ext @ '')''))))"

subsection \<open>verifyResults\<close>

definition call_writeTestResult ::
  "('w, 'es, 'tc, 'cfg, 'res) collaborators \<Rightarrow> string \<Rightarrow> 'res \<Rightarrow> 'w sys \<Rightarrow> error option \<times> 'w sys" where
  "call_writeTestResult c testCasePath result s =
     (case writeTestResult c (world s) testCasePath result of
        (r, w) \<Rightarrow> (r, s\<lparr>world := w, events := events s @ [WriteTestResult testCasePath]\<rparr>))"

definition verifyResults_compare ::
  "('w, 'es, 'tc, 'cfg, 'res) collaborators \<Rightarrow> string \<Rightarrow> 'res \<Rightarrow> 'w sys \<Rightarrow> error option \<times> 'w sys" where
  "verifyResults_compare c testCasePath result s =
     (case compareResults c (world s) testCasePath result of
        Some err \<Rightarrow>
          if err = errTestCaseFailed then (Some errTestCaseFailed, s)
          else (Some (errors_Wrap err ''comparing test results failed''), s)
      | None \<Rightarrow> (None, s))"

definition verifyResults ::
  "('w, 'es, 'tc, 'cfg, 'res) collaborators \<Rightarrow> 'es TestOptions \<Rightarrow> string \<Rightarrow> 'res \<Rightarrow> 'w sys
     \<Rightarrow> error option \<times> 'w sys" where
  "verifyResults c options testCaseFile result s =
     (let testCasePath = filepath_Join c (Path (TestFolder options)) testCaseFile in
      if GenerateTestResult options then
        (case call_writeTestResult c testCasePath result s of
           (Some err, s1) \<Rightarrow> (Some (errors_Wrap err ''writing test result failed''), s1)
         | (None, s1) \<Rightarrow> verifyResults_compare c testCasePath result s1)
      else verifyResults_compare c testCasePath result s)"

subsection \<open>run\<close>

text \<open>
  The calls of the run to the remote engine, to the standard output and to the logger,
  each recorded in \<open>events\<close>.
\<close>

definition call_installIngestPipelines ::
  "('w, 'es, 'tc, 'cfg, 'res) collaborators \<Rightarrow> 'es \<Rightarrow> string \<Rightarrow> 'w sys
     \<Rightarrow> (error + (string \<times> string list)) \<times> 'w sys" where
  "call_installIngestPipelines c es dataStreamPath s =
     (case installIngestPipelines c (world s) es dataStreamPath of
        (r, w) \<Rightarrow> (r, s\<lparr>world := w, events := events s @ [Install dataStreamPath]\<rparr>))"

definition call_uninstallIngestPipelines ::
  "('w, 'es, 'tc, 'cfg, 'res) collaborators \<Rightarrow> 'es \<Rightarrow> string list \<Rightarrow> 'w sys
     \<Rightarrow> error option \<times> 'w sys" where
  "call_uninstallIngestPipelines c es pipelineIDs s =
     (case uninstallIngestPipelines c (world s) es pipelineIDs of
        (r, w) \<Rightarrow> (r, s\<lparr>world := w, events := events s @ [Uninstall pipelineIDs]\<rparr>))"

definition call_simulatePipelineProcessing ::
  "('w, 'es, 'tc, 'cfg, 'res) collaborators \<Rightarrow> 'es \<Rightarrow> string \<Rightarrow> 'tc \<Rightarrow> 'w sys
     \<Rightarrow> (error + 'res) \<times> 'w sys" where
  "call_simulatePipelineProcessing c es entryPipeline tc s =
     (case simulatePipelineProcessing c (world s) es entryPipeline tc of
        (r, w) \<Rightarrow> (r, s\<lparr>world := w, events := events s @ [Simulate entryPipeline (name c tc)]\<rparr>))"

definition fmt_Printf :: "string \<Rightarrow> 'w sys \<Rightarrow> 'w sys" where
  "fmt_Printf line s = s\<lparr>events := events s @ [Printf line]\<rparr>"

definition logger_Warnf :: "string \<Rightarrow> 'w sys \<Rightarrow> 'w sys" where
  "logger_Warnf line s = s\<lparr>events := events s @ [Warnf line]\<rparr>"

text \<open>The test type of the pipeline runner.\<close>

definition TestType_pipeline :: string where
  "TestType_pipeline = ''pipeline''"

text \<open>
  The body of the loop over the test case files (one iteration). \<open>tr\<close> is the local
  variable of the iteration, a struct value: \<open>append(results, tr)\<close> stores a copy, and
  the fields assigned to \<open>tr\<close> afterwards stay in the local variable. The result is
  \<open>Inl err\<close> when the iteration returns from \<open>run\<close> with \<open>(results, err)\<close>, and
  \<open>Inr failed\<close> when the loop goes on, with the new value of \<open>failed\<close>.
\<close>

definition run_case ::
  "('w, 'es, 'tc, 'cfg, 'res) collaborators \<Rightarrow> 'es TestOptions \<Rightarrow> string \<Rightarrow> string \<Rightarrow> bool
     \<Rightarrow> TestResult list \<Rightarrow> 'w sys \<Rightarrow> (error + bool) \<times> TestResult list \<times> 'w sys" where
  "run_case c options entryPipeline testCaseFile failed results s =
     (let tr = \<lparr>TestType = TestType_pipeline,
                Package = Package_f (TestFolder options),
                DataStream = DataStream_f (TestFolder options),
                Name = '''', TimeElapsed = 0, ErrorMsg = '''', FailureMsg = '''',
                FailureDetails = ''''\<rparr>;
          startTime = time_Now c (world s)
      in case loadTestCaseFile c options testCaseFile (world s) of
           Inl err0 \<Rightarrow>
             (let err = errors_Wrap err0 ''loading test case failed'';
                  tr = tr\<lparr>ErrorMsg := Error_text (errTestCaseFailed_text c) err\<rparr>
              in (Inl err, results, s))
         | Inr tc \<Rightarrow>
             (let s = fmt_Printf (''Test case: '' @ name c tc @ [CHR 0x0A]) s;
                  tr = tr\<lparr>Name := name c tc\<rparr>;
                  results = results @ [tr]
              in case call_simulatePipelineProcessing c (ESClient options) entryPipeline tc s of
                   (Inl err0, s) \<Rightarrow>
                     (let err = errors_Wrap err0 ''simulating pipeline processing failed'';
                          tr = tr\<lparr>ErrorMsg := Error_text (errTestCaseFailed_text c) err\<rparr>
                      in (Inl err, results, s))
                 | (Inr result, s) \<Rightarrow>
                     (let tr = tr\<lparr>TimeElapsed := time_Sub (time_Now c (world s)) startTime\<rparr>
                      in case verifyResults c options testCaseFile result s of
                           (Some err, s) \<Rightarrow>
                             if err = errTestCaseFailed then
                               (let failed = True;
                                    tr = tr\<lparr>FailureMsg := Error_text (errTestCaseFailed_text c) err\<rparr>
                                in (Inr failed, results, s))
                             else (Inl (errors_Wrap err ''verifying test result failed''), results, s)
                         | (None, s) \<Rightarrow> (Inr failed, results, s))))"

text \<open>
  The loop: \<open>Inl (results, err)\<close> when an iteration returned, \<open>Inr (failed, results)\<close>
  when the files are exhausted.
\<close>

fun run_cases ::
  "('w, 'es, 'tc, 'cfg, 'res) collaborators \<Rightarrow> 'es TestOptions \<Rightarrow> string \<Rightarrow> string list \<Rightarrow> bool
     \<Rightarrow> TestResult list \<Rightarrow> 'w sys
     \<Rightarrow> ((TestResult list \<times> error) + (bool \<times> TestResult list)) \<times> 'w sys" where
  "run_cases c options entryPipeline [] failed results s = (Inr (failed, results), s)"
| "run_cases c options entryPipeline (testCaseFile # rest) failed results s =
     (case run_case c options entryPipeline testCaseFile failed results s of
        (Inl err, results, s) \<Rightarrow> (Inl (results, err), s)
      | (Inr failed, results, s) \<Rightarrow> run_cases c options entryPipeline rest failed results s)"

text \<open>The deferred function: uninstall, and a warning when that fails.\<close>

definition run_deferred ::
  "('w, 'es, 'tc, 'cfg, 'res) collaborators \<Rightarrow> 'es TestOptions \<Rightarrow> string list \<Rightarrow> 'w sys \<Rightarrow> 'w sys" where
  "run_deferred c options pipelineIDs s =
     (case call_uninstallIngestPipelines c (ESClient options) pipelineIDs s of
        (Some err, s) \<Rightarrow>
          logger_Warnf (''uninstalling ingest pipelines failed: ''
                          @ Error_text (errTestCaseFailed_text c) err) s
      | (None, s) \<Rightarrow> s)"

text \<open>
  \<open>run\<close> (and \<open>Run\<close>, which only builds the runner): the results, the error
  (\<open>None\<close> for \<open>nil\<close>) and the state it leaves. A \<open>nil\<close> slice of results is the empty
  list.
\<close>

definition run ::
  "('w, 'es, 'tc, 'cfg, 'res) collaborators \<Rightarrow> 'es TestOptions \<Rightarrow> 'w sys
     \<Rightarrow> (TestResult list \<times> error option) \<times> 'w sys" where
  "run c options s =
     (case listTestCaseFiles c options (world s) of
        Inl err \<Rightarrow> (([], Some (errors_Wrap err ''listing test case definitions failed'')), s)
      | Inr testCaseFiles \<Rightarrow>
          (case FindDataStreamRootForPath c (world s) (Path (TestFolder options)) of
             Inl err \<Rightarrow> (([], Some (errors_Wrap err ''locating data_stream root failed'')), s)
           | Inr (dataStreamPath, found) \<Rightarrow>
               if \<not> found then (([], Some (errors_New ''data stream root not found'')), s)
               else
                 (case call_installIngestPipelines c (ESClient options) dataStreamPath s of
                    (Inl err, s) \<Rightarrow>
                      (([], Some (errors_Wrap err ''installing ingest pipelines failed'')), s)
                  | (Inr (entryPipeline, pipelineIDs), s) \<Rightarrow>
                      (case run_cases c options entryPipeline testCaseFiles False [] s of
                         (Inl (results, err), s) \<Rightarrow>
                           ((results, Some err), run_deferred c options pipelineIDs s)
                       | (Inr (failed, results), s) \<Rightarrow>
                           if failed then
                             ((results, Some (errors_New ''at least one test case failed'')),
                              run_deferred c options pipelineIDs s)
                           else ((results, None), run_deferred c options pipelineIDs s)))))"

definition Run ::
  "('w, 'es, 'tc, 'cfg, 'res) collaborators \<Rightarrow> 'es TestOptions \<Rightarrow> 'w sys
     \<Rightarrow> (TestResult list \<times> error option) \<times> 'w sys" where
  "Run c options s = run c options s"

subsection \<open>A folder to run on\<close>

text \<open>
  An instance of the collaborators, to evaluate the runner on concrete folders: the
  test folder \<open>folder\<close> with its entries \<open>dir\<close> (name and content), the golden files
  \<open>golden\<close> by test case path, the paths \<open>readonly\<close> that cannot be written, the
  pipelines \<open>installed\<close> on the engine, whether the engine refuses to uninstall, and
  the clock. A test case is its file name and content; the engine answers with the
  content, and fails on the content \<open>down\<close>.
\<close>

record folder_world =
  folder :: string
  dir :: "(string \<times> string) list"
  golden :: "(string \<times> string) list"
  readonly :: "string list"
  installed :: "string list"
  uninstall_refused :: bool
  clock :: int

definition folder_collaborators ::
  "(folder_world, unit, string \<times> string, unit, string) collaborators" where
  "folder_collaborators =
     \<lparr>expectedTestResultSuffix = ''-expected.json'',
      configTestSuffix = ''-config.json'',
      errTestCaseFailed_text = ''test case failed'',
      ioutil_ReadDir = (\<lambda>w p. if p = folder w then Inr (map fst (dir w))
                               else Inl (errors_New ''no such file or directory'')),
      ioutil_ReadFile = (\<lambda>w p. case map_of (map (\<lambda>(n, d). (folder w @ ''/'' @ n, d)) (dir w)) p of
                                  None \<Rightarrow> Inl (errors_New ''no such file or directory'')
                                | Some d \<Rightarrow> Inr d),
      filepath_Join = (\<lambda>a b. a @ ''/'' @ b),
      FindDataStreamRootForPath = (\<lambda>w p. Inr (''/pkg/data_stream/ds'', True)),
      installIngestPipelines =
        (\<lambda>w es p. (Inr (''entry'', [''entry'', ''sub'']), w\<lparr>installed := [''entry'', ''sub'']\<rparr>)),
      uninstallIngestPipelines =
        (\<lambda>w es ids. if uninstall_refused w then (Some (errors_New ''connection refused''), w)
                     else (None, w\<lparr>installed := filter (\<lambda>i. i \<notin> set ids) (installed w)\<rparr>)),
      createTestCaseForEvents = (\<lambda>n d. Inr (n, d)),
      readConfigForTestCase = (\<lambda>w p. Inr ()),
      createTestCaseForRawInput = (\<lambda>n d cfg. Inr (n, d)),
      name = fst,
      simulatePipelineProcessing =
        (\<lambda>w es entry tc. (if snd tc = ''down'' then Inl (errors_New ''engine is down'')
                            else Inr (snd tc), w\<lparr>clock := clock w + 5\<rparr>)),
      writeTestResult =
        (\<lambda>w p r. if p \<in> set (readonly w) then (Some (errors_New ''permission denied''), w)
                  else (None, w\<lparr>golden := (p, r) # golden w\<rparr>)),
      compareResults =
        (\<lambda>w p r. case map_of (golden w) p of
                    None \<Rightarrow> Some (errors_New ''reading expected test result failed'')
                  | Some e \<Rightarrow> if e = r then None else Some errTestCaseFailed),
      time_Now = clock\<rparr>"

definition folder_options :: "bool \<Rightarrow> unit TestOptions" where
  "folder_options generate =
     \<lparr>TestFolder = \<lparr>Path = ''/t'', Package_f = ''pkg'', DataStream_f = ''ds''\<rparr>,
      ESClient = (), GenerateTestResult = generate\<rparr>"

definition folder_sys ::
  "(string \<times> string) list \<Rightarrow> (string \<times> string) list \<Rightarrow> string list \<Rightarrow> bool \<Rightarrow> folder_world sys" where
  "folder_sys entries expected ro refused =
     \<lparr>world = \<lparr>folder = ''/t'', dir = entries, golden = expected, readonly = ro,
                installed = [], uninstall_refused = refused, clock = 0\<rparr>,
      events = []\<rparr>"

subsection \<open>Notions the statements about the runner use\<close>

text \<open>
  The \<open>TestResult\<close> the loop appends for a test case named \<open>n\<close>: the value of \<open>tr\<close> at
  the \<open>append\<close>.
\<close>

definition new_TestResult :: "'es TestOptions \<Rightarrow> string \<Rightarrow> TestResult" where
  "new_TestResult options n =
     \<lparr>TestType = TestType_pipeline,
      Package = Package_f (TestFolder options),
      DataStream = DataStream_f (TestFolder options),
      Name = n, TimeElapsed = 0, ErrorMsg = '''', FailureMsg = '''', FailureDetails = ''''\<rparr>"


text \<open>The events of the loop over the test cases.\<close>

fun case_event :: "event \<Rightarrow> bool" where
  "case_event (Simulate e n) = True"
| "case_event (WriteTestResult p) = True"
| "case_event (Printf l) = True"
| "case_event _ = False"

text \<open>
  The round trip of the golden-file store, as the spec states it: comparing a result with
  the golden file that was just written from it reports a match.
\<close>

definition write_then_compare :: "('w, 'es, 'tc, 'cfg, 'res) collaborators \<Rightarrow> bool" where
  "write_then_compare c \<longleftrightarrow>
     (\<forall>w p r w'. writeTestResult c w p r = (None, w') \<longrightarrow> compareResults c w' p r = None)"

section \<open>The xUnit report format\<close>

subsection \<open>Go maps\<close>

text \<open>
  A Go map with string keys is a list of key and value pairs with distinct keys.
  \<open>map_of m k\<close> is the lookup \<open>v, exists := m[k]\<close>, \<open>AList.update k v m\<close> the assignment
  \<open>m[k] = v\<close>, and \<open>index m k\<close> the expression \<open>m[k]\<close>, which is the zero value for a
  missing key; the values here are maps and slices, whose zero value \<open>nil\<close> is the empty
  list. The inner maps are shared references in Go, so an assignment to
  \<open>m[a][b]\<close> or \<open>m[a][b][c]\<close> is seen through \<open>m\<close>.
\<close>

definition index :: "(string \<times> 'v list) list \<Rightarrow> string \<Rightarrow> 'v list" where
  "index m k = (case map_of m k of None \<Rightarrow> [] | Some v \<Rightarrow> v)"

definition assign2 ::
  "(string \<times> (string \<times> 'v) list) list \<Rightarrow> string \<Rightarrow> string \<Rightarrow> 'v
     \<Rightarrow> (string \<times> (string \<times> 'v) list) list" where
  "assign2 m a b v = AList.update a (AList.update b v (index m a)) m"

definition assign3 ::
  "(string \<times> (string \<times> (string \<times> 'v) list) list) list \<Rightarrow> string \<Rightarrow> string \<Rightarrow> string \<Rightarrow> 'v
     \<Rightarrow> (string \<times> (string \<times> (string \<times> 'v) list) list) list" where
  "assign3 m a b c v = AList.update a (assign2 (index m a) b c v) m"

text \<open>
  Go leaves the order in which \<open>range\<close> visits a map unspecified, and the runtime
  starts every \<open>range\<close> at a random position. An \<open>iteration\<close> chooses the order for
  every \<open>range\<close> statement of a call: given the keys of the enclosing maps (which
  tell the \<open>range\<close> statements of a call apart) and the keys of the map, it returns
  the keys in the order of the visit. It is a \<open>go_iteration\<close> when every map is visited
  at each key once.
\<close>

type_synonym iteration = "string list \<Rightarrow> string list \<Rightarrow> string list"

definition go_iteration :: "iteration \<Rightarrow> bool" where
  "go_iteration it \<longleftrightarrow> (\<forall>path ks. mset (it path ks) = mset ks)"

definition map_range :: "(string list \<Rightarrow> string list) \<Rightarrow> (string \<times> 'v) list \<Rightarrow> (string \<times> 'v) list" where
  "map_range visit m =
     concat (map (\<lambda>k. case map_of m k of None \<Rightarrow> [] | Some v \<Rightarrow> [(k, v)]) (visit (map fst m)))"

text \<open>Two iterations: in the order of insertion, and in the reverse order.\<close>

definition in_order :: iteration where
  "in_order path ks = ks"

definition in_reverse :: iteration where
  "in_reverse path ks = rev ks"

subsection \<open>reportXUnitFormat\<close>

record testCase =
  Name_c :: string
  ClassName :: string
  Time :: int
  Error :: string
  Failure :: string

datatype testSuite = TestSuite
  (Comment: string)
  (Name_s: string)
  (NumTests: int)
  (NumFailures: int)
  (NumErrors: int)
  (Suites: "testSuite list")
  (Cases: "testCase list")

text \<open>\<open>testSuites\<close>; its \<open>XMLName\<close> is never assigned.\<close>

record testSuites =
  Suites_root :: "testSuite list"

type_synonym tests = "(string \<times> (string \<times> (string \<times> testCase list) list) list) list"

text \<open>
  The body of the loop over the results, on the map \<open>tests\<close> and the three counters.
\<close>

definition reportXUnitFormat_add ::
  "TestResult \<Rightarrow> tests \<times> int \<times> int \<times> int \<Rightarrow> tests \<times> int \<times> int \<times> int" where
  "reportXUnitFormat_add r st =
     (case st of (tests, numTests, numFailures, numErrors) \<Rightarrow>
        let testType = TestType r;
            tests = (if map_of tests testType = None
                     then AList.update testType [] tests else tests);
            tests = (if map_of (index tests testType) (Package r) = None
                     then assign2 tests testType (Package r) [] else tests);
            tests = (if map_of (index (index tests testType) (Package r)) (DataStream r) = None
                     then assign3 tests testType (Package r) (DataStream r) [] else tests);
            failure = '''';
            (failure, numFailures) =
               (if FailureMsg r \<noteq> '''' then (FailureMsg r, numFailures + 1)
                else (failure, numFailures));
            failure = (if FailureDetails r \<noteq> '''' then failure @ '': '' @ FailureDetails r
                       else failure);
            numErrors = (if ErrorMsg r \<noteq> '''' then numErrors + 1 else numErrors);
            c = \<lparr>Name_c = Name r, ClassName = '''', Time = TimeElapsed r,
                 Error = ErrorMsg r, Failure = failure\<rparr>;
            numTests = numTests + 1;
            tests = assign3 tests testType (Package r) (DataStream r)
                      (index (index (index tests testType) (Package r)) (DataStream r) @ [c])
        in (tests, numTests, numFailures, numErrors))"

fun reportXUnitFormat_loop ::
  "TestResult list \<Rightarrow> tests \<times> int \<times> int \<times> int \<Rightarrow> tests \<times> int \<times> int \<times> int" where
  "reportXUnitFormat_loop [] st = st"
| "reportXUnitFormat_loop (r # results) st =
     reportXUnitFormat_loop results (reportXUnitFormat_add r st)"

text \<open>
  The three nested loops over the maps; each appends one suite per key visited.
\<close>

definition dataStreamSuites ::
  "iteration \<Rightarrow> string \<Rightarrow> string \<Rightarrow> (string \<times> testCase list) list \<Rightarrow> testSuite list" where
  "dataStreamSuites it testType pkgName pkg =
     map (\<lambda>(dsName, ds).
            TestSuite (''test suite for data stream: '' @ dsName) dsName 0 0 0 [] ds)
         (map_range (it [testType, pkgName]) pkg)"

definition packageSuites ::
  "iteration \<Rightarrow> string \<Rightarrow> (string \<times> (string \<times> testCase list) list) list \<Rightarrow> testSuite list" where
  "packageSuites it testType packages =
     map (\<lambda>(pkgName, pkg).
            TestSuite (''test suite for package: '' @ pkgName) pkgName 0 0 0
              (dataStreamSuites it testType pkgName pkg) [])
         (map_range (it [testType]) packages)"

definition testTypeSuites :: "iteration \<Rightarrow> tests \<Rightarrow> int \<Rightarrow> int \<Rightarrow> int \<Rightarrow> testSuite list" where
  "testTypeSuites it tests numTests numFailures numErrors =
     map (\<lambda>(testType, packages).
            TestSuite (''test suite for '' @ testType @ '' tests'') testType
              numTests numFailures numErrors
              (packageSuites it testType packages) [])
         (map_range (it []) tests)"

text \<open>The value \<open>ts\<close> that \<open>reportXUnitFormat\<close> hands to \<open>xml.MarshalIndent\<close>.\<close>

definition reportXUnitFormat_ts :: "iteration \<Rightarrow> TestResult list \<Rightarrow> testSuites" where
  "reportXUnitFormat_ts it results =
     (case reportXUnitFormat_loop results ([], 0, 0, 0) of
        (tests, numTests, numFailures, numErrors) \<Rightarrow>
          \<lparr>Suites_root = testTypeSuites it tests numTests numFailures numErrors\<rparr>)"

text \<open>\<open>xml.Header\<close>.\<close>

definition xml_Header :: string where
  "xml_Header = ''<?xml version=\"1.0\" encoding=\"UTF-8\"?>'' @ [CHR 0x0A]"

text \<open>
  \<open>reportXUnitFormat\<close>, with \<open>marshal\<close> for \<open>xml.MarshalIndent(&ts, "", "  ")\<close>: the
  document, or the error of the serialization, wrapped.
\<close>

definition reportXUnitFormat ::
  "(testSuites \<Rightarrow> error + string) \<Rightarrow> iteration \<Rightarrow> TestResult list \<Rightarrow> error + string" where
  "reportXUnitFormat marshal it results =
     (case marshal (reportXUnitFormat_ts it results) of
        Inl err \<Rightarrow> Inl (errors_Wrap err ''unable to format test results as xUnit'')
      | Inr out \<Rightarrow> Inr (xml_Header @ out))"

subsection \<open>The serialization of the report\<close>

text \<open>
  \<open>xml.MarshalIndent(&ts, "", "  ")\<close> of Go's \<open>encoding/xml\<close>, for the three struct
  types of the report and their field tags. The printer keeps the text written, the depth
  of the open elements, and the two flags that place the line breaks. An element is
  written with its attribute fields in the order of the struct, then the other fields in
  that order: the comment, then one child element per member of a slice. Fields tagged
  \<open>omitempty\<close> are left out when zero or empty. Attribute values and the text of an
  element are escaped; a comment is written as it is, and a comment that contains two
  dashes in a row is the one error of the serialization. The tag of \<open>ClassName\<close> lacks
  its closing quote, so the field has no \<open>xml\<close> tag: it is the child element
  \<open>ClassName\<close>, written also when empty.
\<close>

record printer =
  written :: string
  depth :: int
  indentedIn :: bool
  putNewline :: bool

definition WriteString :: "string \<Rightarrow> printer \<Rightarrow> printer" where
  "WriteString s p = p\<lparr>written := written p @ s\<rparr>"

text \<open>
  \<open>writeIndent\<close>, with the empty prefix and the indent of two spaces: the line break
  (none before the first line), the indentation, and the three cases of \<open>depthDelta\<close>.
\<close>

definition writeIndent_break :: "printer \<Rightarrow> printer" where
  "writeIndent_break p =
     (if putNewline p then WriteString [CHR 0x0A] p else p\<lparr>putNewline := True\<rparr>)"

definition writeIndent_spaces :: "printer \<Rightarrow> printer" where
  "writeIndent_spaces p = WriteString (concat (replicate (nat (depth p)) ''  '')) p"

definition writeIndent_close :: "printer \<Rightarrow> printer" where
  "writeIndent_close p =
     (if indentedIn p then p\<lparr>indentedIn := False\<rparr>
      else writeIndent_spaces (writeIndent_break (p\<lparr>indentedIn := False\<rparr>)))"

definition writeIndent_open :: "printer \<Rightarrow> printer" where
  "writeIndent_open p = p\<lparr>depth := depth p + 1, indentedIn := True\<rparr>"

definition writeIndent :: "int \<Rightarrow> printer \<Rightarrow> printer" where
  "writeIndent depthDelta p =
     (if depthDelta < 0 then writeIndent_close (p\<lparr>depth := depth p - 1\<rparr>)
      else if depthDelta > 0 then writeIndent_open (writeIndent_spaces (writeIndent_break p))
      else writeIndent_spaces (writeIndent_break p))"

text \<open>
  \<open>utf8.DecodeRuneInString\<close> on a non-empty string: the code point and the number of
  bytes read, \<open>(0xFFFD, 1)\<close> for a byte that starts no well-formed sequence.
\<close>

definition continuation :: "char \<Rightarrow> bool" where
  "continuation b \<longleftrightarrow> 0x80 \<le> (of_char b :: nat) \<and> (of_char b :: nat) \<le> 0xBF"

definition DecodeRune :: "char \<Rightarrow> string \<Rightarrow> nat \<times> nat" where
  "DecodeRune c cs =
     (let b0 = (of_char c :: nat) in
      if b0 < 0x80 then (b0, 1)
      else if b0 < 0xC2 \<or> 0xF4 < b0 then (0xFFFD, 1)
      else if b0 < 0xE0 then
        (case cs of
           b1 # _ \<Rightarrow>
             if continuation b1 then ((b0 mod 32) * 64 + of_char b1 mod 64, 2) else (0xFFFD, 1)
         | _ \<Rightarrow> (0xFFFD, 1))
      else if b0 < 0xF0 then
        (case cs of
           b1 # b2 # _ \<Rightarrow>
             if (if b0 = 0xE0 then 0xA0 else 0x80) \<le> (of_char b1 :: nat)
                \<and> (of_char b1 :: nat) \<le> (if b0 = 0xED then 0x9F else 0xBF)
                \<and> continuation b2
             then ((b0 mod 16) * 4096 + (of_char b1 mod 64) * 64 + of_char b2 mod 64, 3)
             else (0xFFFD, 1)
         | _ \<Rightarrow> (0xFFFD, 1))
      else
        (case cs of
           b1 # b2 # b3 # _ \<Rightarrow>
             if (if b0 = 0xF0 then 0x90 else 0x80) \<le> (of_char b1 :: nat)
                \<and> (of_char b1 :: nat) \<le> (if b0 = 0xF4 then 0x8F else 0xBF)
                \<and> continuation b2 \<and> continuation b3
             then ((b0 mod 8) * 262144 + (of_char b1 mod 64) * 4096
                     + (of_char b2 mod 64) * 64 + of_char b3 mod 64, 4)
             else (0xFFFD, 1)
         | _ \<Rightarrow> (0xFFFD, 1)))"

definition isInCharacterRange :: "nat \<Rightarrow> bool" where
  "isInCharacterRange r \<longleftrightarrow>
     r = 0x09 \<or> r = 0x0A \<or> r = 0x0D \<or> (0x20 \<le> r \<and> r \<le> 0xD7FF)
     \<or> (0xE000 \<le> r \<and> r \<le> 0xFFFD) \<or> (0x10000 \<le> r \<and> r \<le> 0x10FFFF)"

text \<open>
  \<open>EscapeString\<close>: what is written for one code point of the text (its replacement, or
  its own bytes), and the loop over the text.
\<close>

definition escape_of :: "nat \<Rightarrow> nat \<Rightarrow> string option" where
  "escape_of r width =
     (if r = 0x22 then Some ''&#34;''
      else if r = 0x27 then Some ''&#39;''
      else if r = 0x26 then Some ''&amp;''
      else if r = 0x3C then Some ''&lt;''
      else if r = 0x3E then Some ''&gt;''
      else if r = 0x09 then Some ''&#x9;''
      else if r = 0x0A then Some ''&#xA;''
      else if r = 0x0D then Some ''&#xD;''
      else if \<not> isInCharacterRange r \<or> (r = 0xFFFD \<and> width = 1)
        then Some [CHR 0xEF, CHR 0xBF, CHR 0xBD]
      else None)"

definition escaped :: "nat \<times> nat \<Rightarrow> string \<Rightarrow> string" where
  "escaped rune s =
     (case escape_of (fst rune) (snd rune) of
        Some esc \<Rightarrow> esc
      | None \<Rightarrow> take (snd rune) s)"

fun EscapeString :: "string \<Rightarrow> string" where
  "EscapeString [] = []"
| "EscapeString (c # cs) =
     escaped (DecodeRune c cs) (c # cs) @ EscapeString (drop (snd (DecodeRune c cs) - 1) cs)"

text \<open>\<open>strconv.FormatInt(i, 10)\<close>.\<close>

fun digits :: "nat \<Rightarrow> string" where
  "digits n =
     (if n < 10 then [''0123456789'' ! n]
      else digits (n div 10) @ [''0123456789'' ! (n mod 10)])"

definition FormatInt :: "int \<Rightarrow> string" where
  "FormatInt i = (if i < 0 then ''-'' @ digits (nat (- i)) else digits (nat i))"

text \<open>\<open>strings.Contains(s, "--")\<close>.\<close>

fun contains_dashes :: "string \<Rightarrow> bool" where
  "contains_dashes (a # b # cs) = ((a = CHR ''-'' \<and> b = CHR ''-'') \<or> contains_dashes (b # cs))"
| "contains_dashes _ = False"

text \<open>The start tag with its attributes, the end tag, and an element holding a text.\<close>

definition writeStart :: "string \<Rightarrow> (string \<times> string) list \<Rightarrow> printer \<Rightarrow> printer" where
  "writeStart local attrs p =
     WriteString ''>''
       (WriteString (concat (map (\<lambda>(n, v). '' '' @ n @ ''=\"'' @ EscapeString v @ ''\"'') attrs))
          (WriteString (''<'' @ local) (writeIndent 1 p)))"

definition writeEnd :: "string \<Rightarrow> printer \<Rightarrow> printer" where
  "writeEnd local p = WriteString (''</'' @ local @ ''>'') (writeIndent (- 1) p)"

definition marshal_string :: "string \<Rightarrow> string \<Rightarrow> printer \<Rightarrow> printer" where
  "marshal_string local s p = writeEnd local (WriteString (EscapeString s) (writeStart local [] p))"

definition marshal_omitempty :: "string \<Rightarrow> string \<Rightarrow> printer \<Rightarrow> printer" where
  "marshal_omitempty local s p = (if s = [] then p else marshal_string local s p)"

definition marshal_testCase :: "testCase \<Rightarrow> printer \<Rightarrow> printer" where
  "marshal_testCase c p =
     writeEnd ''testcase''
       (marshal_omitempty ''failure'' (Failure c)
          (marshal_omitempty ''error'' (Error c)
             (marshal_string ''ClassName'' (ClassName c)
                (writeStart ''testcase''
                   [(''name'', Name_c c), (''time'', FormatInt (Time c))] p))))"

text \<open>
  The fields of a suite after its start tag. An error ends the serialization: each step
  takes the error or the printer of the step before.
\<close>

definition marshal_comment :: "string \<Rightarrow> error + printer \<Rightarrow> error + printer" where
  "marshal_comment s x =
     (case x of
        Inl err \<Rightarrow> Inl err
      | Inr p \<Rightarrow>
          if s = [] then Inr p
          else if contains_dashes s
            then Inl (errors_New ''xml: comments must not contain \"--\"'')
          else Inr (WriteString ''-->''
                      (WriteString (if last s = CHR ''-'' then s @ '' '' else s)
                         (WriteString ''<!--'' (writeIndent 0 p)))))"

definition marshal_cases :: "testCase list \<Rightarrow> error + printer \<Rightarrow> error + printer" where
  "marshal_cases cases x =
     (case x of Inl err \<Rightarrow> Inl err | Inr p \<Rightarrow> Inr (fold marshal_testCase cases p))"

definition marshal_end :: "string \<Rightarrow> error + printer \<Rightarrow> error + printer" where
  "marshal_end local x = (case x of Inl err \<Rightarrow> Inl err | Inr p \<Rightarrow> Inr (writeEnd local p))"

definition testSuite_attrs :: "string \<Rightarrow> int \<Rightarrow> int \<Rightarrow> int \<Rightarrow> (string \<times> string) list" where
  "testSuite_attrs nm numTests numFailures numErrors =
     [(''name'', nm)]
     @ (if numTests = 0 then [] else [(''tests'', FormatInt numTests)])
     @ (if numFailures = 0 then [] else [(''failures'', FormatInt numFailures)])
     @ (if numErrors = 0 then [] else [(''errors'', FormatInt numErrors)])"

fun marshal_testSuite :: "testSuite \<Rightarrow> error + printer \<Rightarrow> error + printer"
  and marshal_testSuite_list :: "testSuite list \<Rightarrow> error + printer \<Rightarrow> error + printer" where
  "marshal_testSuite (TestSuite comment nm numTests numFailures numErrors suites cases) (Inl err) =
     Inl err"
| "marshal_testSuite (TestSuite comment nm numTests numFailures numErrors suites cases) (Inr p) =
     marshal_end ''testsuite''
       (marshal_cases cases
          (marshal_testSuite_list suites
             (marshal_comment comment
                (Inr (writeStart ''testsuite''
                        (testSuite_attrs nm numTests numFailures numErrors) p)))))"
| "marshal_testSuite_list [] x = x"
| "marshal_testSuite_list (s # ss) x = marshal_testSuite_list ss (marshal_testSuite s x)"

definition xml_MarshalIndent :: "testSuites \<Rightarrow> error + string" where
  "xml_MarshalIndent ts =
     (case marshal_end ''testsuites''
             (marshal_testSuite_list (Suites_root ts)
                (Inr (writeStart ''testsuites'' []
                        \<lparr>written = [], depth = 0, indentedIn = False, putNewline = False\<rparr>))) of
        Inl err \<Rightarrow> Inl err
      | Inr p \<Rightarrow> Inr (written p))"

section \<open>The reporter ReportXUnit\<close>

record testCase_r =
  Name_r :: string
  Time_r :: int
  Error_r :: string
  Failure_r :: string

datatype testSuite_r = TestSuite_r
  (Suites_r: "testSuite_r list")
  (Cases_r: "testCase_r list")

record testSuites_r =
  Suites_root_r :: "testSuite_r list"

text \<open>
  The zero values of the two struct types: what \<open>make([]testCase, 1)\<close> and
  \<open>make([]testSuite, n)\<close> are filled with.
\<close>

definition testCase_zero :: testCase_r where
  "testCase_zero = \<lparr>Name_r = '''', Time_r = 0, Error_r = '''', Failure_r = ''''\<rparr>"

definition testSuite_zero :: testSuite_r where
  "testSuite_zero = TestSuite_r [] []"

type_synonym packages = "(string \<times> (string \<times> testCase_r list) list) list"

text \<open>The body of the loop over the results, on the map \<open>packages\<close> and \<open>numPackages\<close>.\<close>

definition ReportXUnit_add :: "TestResult \<Rightarrow> packages \<times> int \<Rightarrow> packages \<times> int" where
  "ReportXUnit_add r st =
     (case st of (packages, numPackages) \<Rightarrow>
        let (packages, numPackages) =
               (if map_of packages (Package r) = None
                then (AList.update (Package r) [] packages, numPackages + 1)
                else (packages, numPackages));
            packages = (if map_of (index packages (Package r)) (DataStream r) = None
                        then assign2 packages (Package r) (DataStream r)
                               (replicate 1 testCase_zero)
                        else packages);
            c = \<lparr>Name_r = Name r, Time_r = TimeElapsed r, Error_r = ErrorMsg r,
                 Failure_r = FailureMsg r\<rparr>;
            packages = assign2 packages (Package r) (DataStream r)
                         (index (index packages (Package r)) (DataStream r) @ [c])
        in (packages, numPackages))"

fun ReportXUnit_loop :: "TestResult list \<Rightarrow> packages \<times> int \<Rightarrow> packages \<times> int" where
  "ReportXUnit_loop [] st = st"
| "ReportXUnit_loop (r # results) st = ReportXUnit_loop results (ReportXUnit_add r st)"

text \<open>
  The value \<open>ts\<close> that \<open>ReportXUnit\<close> hands to \<open>xml.MarshalIndent\<close>: the two slices of
  suites are made with a length, and the loops append to them.
\<close>

definition ReportXUnit_ts :: "iteration \<Rightarrow> TestResult list \<Rightarrow> testSuites_r" where
  "ReportXUnit_ts it results =
     (case ReportXUnit_loop results ([], 0) of
        (packages, numPackages) \<Rightarrow>
          \<lparr>Suites_root_r =
             replicate (nat numPackages) testSuite_zero
             @ map (\<lambda>(pkgName, pkg).
                      TestSuite_r
                        (replicate 1 testSuite_zero
                         @ map (\<lambda>(dsName, ds). TestSuite_r [] ds) (map_range (it [pkgName]) pkg))
                        [])
                   (map_range (it []) packages)\<rparr>)"

definition ReportXUnit ::
  "(testSuites_r \<Rightarrow> error + string) \<Rightarrow> iteration \<Rightarrow> TestResult list \<Rightarrow> error + string" where
  "ReportXUnit marshal it results =
     (case marshal (ReportXUnit_ts it results) of
        Inl err \<Rightarrow> Inl (errors_Wrap err ''unable to format test results as xUnit'')
      | Inr out \<Rightarrow> Inr (xml_Header @ out))"

subsection \<open>Notions the statements about the reports use\<close>

text \<open>The case element that \<open>reportXUnitFormat\<close> builds for a result.\<close>

definition xunit_case :: "TestResult \<Rightarrow> testCase" where
  "xunit_case r =
     \<lparr>Name_c = Name r, ClassName = '''', Time = TimeElapsed r, Error = ErrorMsg r,
      Failure = (if FailureMsg r \<noteq> '''' then FailureMsg r else '''')
                @ (if FailureDetails r \<noteq> '''' then '': '' @ FailureDetails r else '''')\<rparr>"

text \<open>The case that \<open>ReportXUnit\<close> builds for a result.\<close>

definition report_case :: "TestResult \<Rightarrow> testCase_r" where
  "report_case r =
     \<lparr>Name_r = Name r, Time_r = TimeElapsed r, Error_r = ErrorMsg r, Failure_r = FailureMsg r\<rparr>"

text \<open>The results of one test type, package and data stream.\<close>

definition in_group :: "string \<Rightarrow> string \<Rightarrow> string \<Rightarrow> TestResult \<Rightarrow> bool" where
  "in_group t p d r \<longleftrightarrow> TestType r = t \<and> Package r = p \<and> DataStream r = d"

text \<open>The map \<open>tests\<close> after the loop of \<open>reportXUnitFormat\<close>.\<close>

definition grouped :: "TestResult list \<Rightarrow> tests" where
  "grouped results = fst (reportXUnitFormat_loop results ([], 0, 0, 0))"

text \<open>The map \<open>packages\<close> after the loop of \<open>ReportXUnit\<close>.\<close>

definition packaged :: "TestResult list \<Rightarrow> packages" where
  "packaged results = fst (ReportXUnit_loop results ([], 0))"

text \<open>
  The steps of the loop bodies that create a missing entry: of a map, of an inner map,
  and of a map two levels down.
\<close>

definition ensure1 :: "(string \<times> 'v list) list \<Rightarrow> string \<Rightarrow> (string \<times> 'v list) list" where
  "ensure1 m a = (if map_of m a = None then AList.update a [] m else m)"

definition ensure2 ::
  "(string \<times> (string \<times> 'v list) list) list \<Rightarrow> string \<Rightarrow> string
     \<Rightarrow> (string \<times> (string \<times> 'v list) list) list" where
  "ensure2 m a b = (if map_of (index m a) b = None then assign2 m a b [] else m)"

definition ensure3 ::
  "(string \<times> (string \<times> (string \<times> 'v list) list) list) list \<Rightarrow> string \<Rightarrow> string \<Rightarrow> string
     \<Rightarrow> (string \<times> (string \<times> (string \<times> 'v list) list) list) list" where
  "ensure3 m a b c = (if map_of (index (index m a) b) c = None then assign3 m a b c [] else m)"

definition ensure_cases :: "packages \<Rightarrow> string \<Rightarrow> string \<Rightarrow> packages" where
  "ensure_cases m a b =
     (if map_of (index m a) b = None then assign2 m a b (replicate 1 testCase_zero) else m)"

subsection \<open>Results to report\<close>

text \<open>
  Three results of two test types, one of them failed and one in error; a result that
  has failure details and no failure message; two results of one data stream; and two
  results of two packages.
\<close>

definition result3 :: "TestResult list" where
  "result3 =
     [\<lparr>TestType = ''pipeline'', Package = ''apache'', DataStream = ''access'', Name = ''case1'',
       TimeElapsed = 1500, ErrorMsg = '''', FailureMsg = '''', FailureDetails = ''''\<rparr>,
      \<lparr>TestType = ''pipeline'', Package = ''nginx'', DataStream = ''access'', Name = ''case2'',
       TimeElapsed = 20, ErrorMsg = '''', FailureMsg = ''test case failed'', FailureDetails = ''''\<rparr>,
      \<lparr>TestType = ''system'', Package = ''apache'', DataStream = ''error'', Name = ''case3'',
       TimeElapsed = 0, ErrorMsg = ''engine is down'', FailureMsg = '''', FailureDetails = ''''\<rparr>]"

definition details_only :: TestResult where
  "details_only =
     \<lparr>TestType = ''pipeline'', Package = ''apache'', DataStream = ''access'', Name = ''case1'',
      TimeElapsed = 1500, ErrorMsg = '''', FailureMsg = '''', FailureDetails = ''diff''\<rparr>"

definition one_group :: "TestResult list" where
  "one_group =
     [\<lparr>TestType = ''pipeline'', Package = ''apache'', DataStream = ''access'', Name = ''case1'',
       TimeElapsed = 1500, ErrorMsg = '''', FailureMsg = '''', FailureDetails = ''''\<rparr>,
      \<lparr>TestType = ''pipeline'', Package = ''apache'', DataStream = ''access'', Name = ''case2'',
       TimeElapsed = 20, ErrorMsg = '''', FailureMsg = ''test case failed'', FailureDetails = ''''\<rparr>]"

definition two_packages :: "TestResult list" where
  "two_packages =
     [\<lparr>TestType = ''pipeline'', Package = ''apache'', DataStream = ''access'', Name = ''case1'',
       TimeElapsed = 1500, ErrorMsg = '''', FailureMsg = '''', FailureDetails = ''''\<rparr>,
      \<lparr>TestType = ''pipeline'', Package = ''nginx'', DataStream = ''access'', Name = ''case2'',
       TimeElapsed = 20, ErrorMsg = '''', FailureMsg = '''', FailureDetails = ''''\<rparr>]"

section \<open>Discovery of the test cases\<close>

lemma strings_HasSuffix_iff: "strings_HasSuffix s suff \<longleftrightarrow> suffix suff s"
proof
  assume "strings_HasSuffix s suff"
  then have "s = take (length s - length suff) s @ suff"
    by (metis append_take_drop_id strings_HasSuffix_def)
  then show "suffix suff s"
    by (metis suffixI)
next
  assume "suffix suff s"
  then obtain p where "s = p @ suff"
    by (auto simp: suffix_def)
  then show "strings_HasSuffix s suff"
    by (simp add: strings_HasSuffix_def)
qed

lemma listTestCaseFiles_loop_filter:
  "listTestCaseFiles_loop e g fis files =
     files @ filter (\<lambda>n. \<not> suffix e n \<and> \<not> suffix g n) fis"
  by (induction fis arbitrary: files) (simp_all add: strings_HasSuffix_iff)

text \<open>
  C5. Discovery returns the names of the entries of the test folder that end with
  neither the expected-result suffix nor the config suffix, in the order of the
  listing; when the folder cannot be read it fails with the error of the read, wrapped.
\<close>

theorem listTestCaseFiles_discovery:
  "(ioutil_ReadDir c w (Path (TestFolder options)) = Inr fis \<longrightarrow>
      listTestCaseFiles c options w =
        Inr (filter (\<lambda>n. \<not> suffix (expectedTestResultSuffix c) n
                        \<and> \<not> suffix (configTestSuffix c) n) fis))
   \<and> (ioutil_ReadDir c w (Path (TestFolder options)) = Inl err \<longrightarrow>
      listTestCaseFiles c options w =
        Inl (errors_Wrap err
              (''reading pipeline tests failed (path: '' @ Path (TestFolder options) @ '')'')))"
  by (simp add: listTestCaseFiles_def listTestCaseFiles_loop_filter)

theorem listTestCaseFiles_discovery_witness:
  "listTestCaseFiles folder_collaborators (folder_options False)
     (world (folder_sys [(''case1.json'', ''a''), (''case1.json-expected.json'', ''a''),
                         (''case2.log'', ''b''), (''case2.log-config.json'', ''c'')] [] [] False))
     = Inr [''case1.json'', ''case2.log'']
   \<and> listTestCaseFiles folder_collaborators (folder_options False)
     ((world (folder_sys [(''case1.json'', ''a'')] [] [] False))\<lparr>folder := ''/u''\<rparr>)
     = Inl (errors_Wrap (errors_New ''no such file or directory'')
             ''reading pipeline tests failed (path: /t)'')"
  using listTestCaseFiles_discovery [of folder_collaborators
          "world (folder_sys [(''case1.json'', ''a''), (''case1.json-expected.json'', ''a''),
                         (''case2.log'', ''b''), (''case2.log-config.json'', ''c'')] [] [] False)"
          "folder_options False"
          "[''case1.json'', ''case1.json-expected.json'', ''case2.log'', ''case2.log-config.json'']"]
        listTestCaseFiles_discovery [of folder_collaborators
          "(world (folder_sys [(''case1.json'', ''a'')] [] [] False))\<lparr>folder := ''/u''\<rparr>"
          "folder_options False" _ "errors_New ''no such file or directory''"]
  by (simp add: folder_collaborators_def folder_options_def folder_sys_def
        strings_HasSuffix_iff [symmetric] strings_HasSuffix_def)

section \<open>The loop over the test cases\<close>

lemmas folder_eval =
  Run_def run_def run_case_def run_deferred_def listTestCaseFiles_def loadTestCaseFile_def
  verifyResults_def verifyResults_compare_def call_writeTestResult_def
  call_installIngestPipelines_def call_uninstallIngestPipelines_def
  call_simulatePipelineProcessing_def fmt_Printf_def logger_Warnf_def
  strings_HasSuffix_def filepath_Ext_def TestType_pipeline_def time_Sub_def
  folder_collaborators_def folder_options_def folder_sys_def new_TestResult_def Let_def


lemma run_case_goes_on:
  "run_case c options e f failed results s = (Inr failed', results', s') \<Longrightarrow>
     (\<exists>n. results' = results @ [new_TestResult options n]) \<and> (failed \<longrightarrow> failed')"
  by (auto simp: run_case_def new_TestResult_def Let_def
           split: sum.splits prod.splits option.splits if_splits)

lemma run_cases_append:
  "run_cases c options e (xs @ ys) failed results s =
     (case run_cases c options e xs failed results s of
        (Inl r, s') \<Rightarrow> (Inl r, s')
      | (Inr (failed', results'), s') \<Rightarrow> run_cases c options e ys failed' results' s')"
  by (induction xs arbitrary: failed results s) (auto split: prod.splits sum.splits)

lemma run_cases_completed:
  "run_cases c options e fs failed results s = (Inr (failed', results'), s') \<Longrightarrow>
     length results' = length results + length fs \<and> (failed \<longrightarrow> failed')
     \<and> take (length results) results' = results"
proof (induction fs arbitrary: failed results s)
  case Nil
  then show ?case by simp
next
  case (Cons f fs)
  obtain r1 results1 s1 where step: "run_case c options e f failed results s = (r1, results1, s1)"
    by (metis prod_cases3)
  with Cons.prems obtain failed1 where r1: "r1 = Inr failed1"
    and rest: "run_cases c options e fs failed1 results1 s1 = (Inr (failed', results'), s')"
    by (cases r1) auto
  from step r1 obtain n where res1: "results1 = results @ [new_TestResult options n]"
    and f1: "failed \<longrightarrow> failed1"
    using run_case_goes_on by blast
  from Cons.IH [OF rest] have "length results' = length results1 + length fs"
    "failed1 \<longrightarrow> failed'" "take (length results1) results' = results1"
    by simp_all
  with res1 f1 show ?case
    by (auto simp: take_Suc_conv_app_nth append_eq_conv_conj)
qed



lemma run_case_mismatch:
  assumes "loadTestCaseFile c options f (world s) = Inr tc"
    and "call_simulatePipelineProcessing c (ESClient options) e tc
           (fmt_Printf (''Test case: '' @ name c tc @ [CHR 0x0A]) s) = (Inr result, s3)"
    and "verifyResults c options f result s3 = (Some errTestCaseFailed, s4)"
  shows "run_case c options e f failed results s =
           (Inr True, results @ [new_TestResult options (name c tc)], s4)"
  using assms by (simp add: run_case_def new_TestResult_def Let_def)

lemma run_completed:
  assumes "listTestCaseFiles c options (world s) = Inr files"
    and "FindDataStreamRootForPath c (world s) (Path (TestFolder options)) = Inr (root, True)"
    and "call_installIngestPipelines c (ESClient options) root s = (Inr (e, ids), s1)"
    and "run_cases c options e files False [] s1 = (r, s2)"
  shows "run c options s =
     ((case r of Inl (results, err) \<Rightarrow> (results, Some err)
       | Inr (failed, results) \<Rightarrow>
           (results, if failed then Some (errors_New ''at least one test case failed'') else None)),
      run_deferred c options ids s2)"
  using assms by (auto simp: run_def split: sum.splits prod.splits)

lemma run_case_events:
  "run_case c options e f failed results s = (r, results', s') \<Longrightarrow>
     \<exists>evs. events s' = events s @ evs \<and> (\<forall>ev\<in>set evs. case_event ev)"
  by (auto simp: run_case_def Let_def verifyResults_def verifyResults_compare_def
        call_writeTestResult_def call_simulatePipelineProcessing_def fmt_Printf_def
      split: sum.splits prod.splits option.splits if_splits)

lemma run_cases_events:
  "run_cases c options e fs failed results s = (r, s') \<Longrightarrow>
     \<exists>evs. events s' = events s @ evs \<and> (\<forall>ev\<in>set evs. case_event ev)"
proof (induction fs arbitrary: failed results s)
  case Nil
  then show ?case by auto
next
  case (Cons f fs)
  obtain r1 results1 s1 where step: "run_case c options e f failed results s = (r1, results1, s1)"
    by (metis prod_cases3)
  from run_case_events [OF step] obtain evs1 where
    e1: "events s1 = events s @ evs1" "\<forall>ev\<in>set evs1. case_event ev"
    by blast
  show ?case
  proof (cases r1)
    case (Inl err)
    with Cons.prems step have "s' = s1" by simp
    with e1 show ?thesis by blast
  next
    case (Inr failed1)
    with Cons.prems step have "run_cases c options e fs failed1 results1 s1 = (r, s')"
      by simp
    from Cons.IH [OF this] obtain evs2 where
      "events s' = events s1 @ evs2" "\<forall>ev\<in>set evs2. case_event ev"
      by blast
    with e1 have "events s' = events s @ (evs1 @ evs2) \<and> (\<forall>ev\<in>set (evs1 @ evs2). case_event ev)"
      by auto
    then show ?thesis by blast
  qed
qed

lemma loadTestCaseFile_uninstall_free:
  "loadTestCaseFile (c\<lparr>uninstallIngestPipelines := u\<rparr>) options f w = loadTestCaseFile c options f w"
  by (simp add: loadTestCaseFile_def Let_def cong: sum.case_cong if_cong)

lemma verifyResults_uninstall_free:
  "verifyResults (c\<lparr>uninstallIngestPipelines := u\<rparr>) options f result s
     = verifyResults c options f result s"
  by (simp add: verifyResults_def verifyResults_compare_def call_writeTestResult_def Let_def
      cong: if_cong prod.case_cong option.case_cong)

lemma simulate_uninstall_free:
  "call_simulatePipelineProcessing (c\<lparr>uninstallIngestPipelines := u\<rparr>) es e tc s
     = call_simulatePipelineProcessing c es e tc s"
  by (simp add: call_simulatePipelineProcessing_def)

lemma run_case_uninstall_free:
  "run_case (c\<lparr>uninstallIngestPipelines := u\<rparr>) options e f failed results s
     = run_case c options e f failed results s"
  by (simp add: run_case_def loadTestCaseFile_uninstall_free verifyResults_uninstall_free
        simulate_uninstall_free Let_def
      cong: sum.case_cong prod.case_cong option.case_cong if_cong)

lemma run_cases_uninstall_free:
  "run_cases (c\<lparr>uninstallIngestPipelines := u\<rparr>) options e fs failed results s
     = run_cases c options e fs failed results s"
  by (induction fs arbitrary: failed results s)
     (simp_all add: run_case_uninstall_free cong: sum.case_cong prod.case_cong)

lemma run_result_uninstall_free:
  "fst (run (c\<lparr>uninstallIngestPipelines := u\<rparr>) options s) = fst (run c options s)"
  by (simp add: run_def run_cases_uninstall_free listTestCaseFiles_def
        call_installIngestPipelines_def
      split: sum.splits prod.splits)

lemma run_deferred_state:
  assumes "uninstallIngestPipelines c (world s) (ESClient options) ids = (answer, w)"
  shows "run_deferred c options ids s =
     s\<lparr>world := w,
       events := events s @ Uninstall ids
                 # (case answer of
                      None \<Rightarrow> []
                    | Some err \<Rightarrow> [Warnf (''uninstalling ingest pipelines failed: ''
                                          @ Error_text (errTestCaseFailed_text c) err)])\<rparr>"
  using assms
  by (simp add: run_deferred_def call_uninstallIngestPipelines_def logger_Warnf_def
      split: option.splits)

lemma folder_write_then_compare: "write_then_compare folder_collaborators"
  by (auto simp: write_then_compare_def folder_collaborators_def split: if_splits)

section \<open>What the runner returns\<close>




text \<open>
  C1. The claim asks for one entry per test case file attempted, the entry of the case
  that aborted the run included, with its error text. Evaluated on two folders: with
  \<open>case3.csv\<close> (an unsupported extension) first, \<open>run\<close> returns no result at all
  beside the load error; with a first case that the engine fails on, the result of that
  case is returned with an empty \<open>ErrorMsg\<close>.
\<close>

theorem Run_abort_results:
  "fst (Run folder_collaborators (folder_options False)
          (folder_sys [(''case3.csv'', ''x''), (''case4.json'', ''y'')] [] [] False))
     = ([], Some (errors_Wrap (errors_New ''unsupported extension for test case file (ext: .csv)'')
                   ''loading test case failed''))
   \<and> fst (Run folder_collaborators (folder_options False)
          (folder_sys [(''case1.json'', ''down''), (''case2.json'', ''y'')] [] [] False))
     = ([\<lparr>TestType = ''pipeline'', Package = ''pkg'', DataStream = ''ds'', Name = ''case1.json'',
          TimeElapsed = 0, ErrorMsg = '''', FailureMsg = '''', FailureDetails = ''''\<rparr>],
        Some (errors_Wrap (errors_New ''engine is down'') ''simulating pipeline processing failed''))"
  by (simp add: folder_eval)


lemma run_mismatch:
  assumes "listTestCaseFiles c options (world s) = Inr (before @ testCaseFile # after)"
    and "FindDataStreamRootForPath c (world s) (Path (TestFolder options)) = Inr (dataStreamPath, True)"
    and "call_installIngestPipelines c (ESClient options) dataStreamPath s
           = (Inr (entryPipeline, pipelineIDs), s1)"
    and "run_cases c options entryPipeline before False [] s1 = (Inr (failed2, results2), s2)"
    and "loadTestCaseFile c options testCaseFile (world s2) = Inr tc"
    and "call_simulatePipelineProcessing c (ESClient options) entryPipeline tc
           (fmt_Printf (''Test case: '' @ name c tc @ [CHR 0x0A]) s2) = (Inr result, s3)"
    and "verifyResults c options testCaseFile result s3 = (Some errTestCaseFailed, s4)"
  shows "run_cases c options entryPipeline (before @ testCaseFile # after) False [] s1
           = run_cases c options entryPipeline after True
               (results2 @ [new_TestResult options (name c tc)]) s4
         \<and> snd (fst (Run c options s)) \<noteq> None
         \<and> (\<forall>failed5 results5 s5.
              run_cases c options entryPipeline after True
                (results2 @ [new_TestResult options (name c tc)]) s4 = (Inr (failed5, results5), s5)
              \<longrightarrow> fst (Run c options s)
                    = (results5, Some (errors_New ''at least one test case failed''))
                  \<and> length results5 = length (before @ testCaseFile # after)
                  \<and> take (Suc (length before)) results5
                      = results2 @ [new_TestResult options (name c tc)])"
proof -
  let ?tr = "new_TestResult options (name c tc)"
  let ?rest = "run_cases c options entryPipeline after True (results2 @ [?tr]) s4"
  have step: "run_case c options entryPipeline testCaseFile failed2 results2 s2
                = (Inr True, results2 @ [?tr], s4)"
    using run_case_mismatch [OF assms(5-7)] .
  have whole: "run_cases c options entryPipeline (before @ testCaseFile # after) False [] s1 = ?rest"
    by (simp add: run_cases_append assms(4) step)
  obtain r s5 where rest: "?rest = (r, s5)"
    by (metis prod.exhaust)
  have run: "run c options s =
     ((case r of Inl (results, err) \<Rightarrow> (results, Some err)
       | Inr (failed, results) \<Rightarrow>
           (results, if failed then Some (errors_New ''at least one test case failed'') else None)),
      run_deferred c options pipelineIDs s5)"
    using run_completed [OF assms(1-3)] whole rest by simp
  have l2: "length results2 = length before"
    using run_cases_completed [OF assms(4)] by simp
  have nonnil: "snd (fst (Run c options s)) \<noteq> None"
  proof (cases r)
    case (Inl a)
    then show ?thesis by (simp add: Run_def run split: prod.splits)
  next
    case (Inr b)
    then obtain failed5 results5 where "r = Inr (failed5, results5)"
      by (cases b) simp
    moreover from this rest have failed5
      using run_cases_completed by blast
    ultimately show ?thesis by (simp add: Run_def run)
  qed
  have full: "fst (Run c options s) = (results5, Some (errors_New ''at least one test case failed''))
                  \<and> length results5 = length (before @ testCaseFile # after)
                  \<and> take (Suc (length before)) results5 = results2 @ [?tr]"
    if "?rest = (Inr (failed5, results5), s5')" for failed5 results5 s5'
  proof -
    from that rest have r: "r = Inr (failed5, results5)" by simp
    from that have c: "length results5 = length (results2 @ [?tr]) + length after" failed5
      using run_cases_completed by blast+
    from that have "take (length (results2 @ [?tr])) results5 = results2 @ [?tr]"
      using run_cases_completed by blast
    then show ?thesis
      using c l2 r by (simp add: Run_def run)
  qed
  show ?thesis
    using whole nonnil full by blast
qed

text \<open>
  C2, as amended. When the comparison of a case returns the mismatch sentinel, the
  loop appends the result of that case, sets \<open>failed\<close> and goes on with the next case;
  \<open>Run\<close> then returns an error, and when no later case aborts the run, it returns one
  result per discovered file, in discovery order, together with the error
  \<open>at least one test case failed\<close>.
\<close>

theorem Run_mismatch_goes_on:
  assumes "listTestCaseFiles c options (world s) = Inr (before @ testCaseFile # after)"
    and "FindDataStreamRootForPath c (world s) (Path (TestFolder options)) = Inr (dataStreamPath, True)"
    and "call_installIngestPipelines c (ESClient options) dataStreamPath s
           = (Inr (entryPipeline, pipelineIDs), s1)"
    and "run_cases c options entryPipeline before False [] s1 = (Inr (failed2, results2), s2)"
    and "loadTestCaseFile c options testCaseFile (world s2) = Inr tc"
    and "call_simulatePipelineProcessing c (ESClient options) entryPipeline tc
           (fmt_Printf (''Test case: '' @ name c tc @ [CHR 0x0A]) s2) = (Inr result, s3)"
    and "verifyResults c options testCaseFile result s3 = (Some errTestCaseFailed, s4)"
  shows "\<exists>tr. Name tr = name c tc
         \<and> run_cases c options entryPipeline (before @ testCaseFile # after) False [] s1
             = run_cases c options entryPipeline after True (results2 @ [tr]) s4
         \<and> snd (fst (Run c options s)) \<noteq> None
         \<and> (\<forall>failed5 results5 s5.
              run_cases c options entryPipeline after True (results2 @ [tr]) s4
                = (Inr (failed5, results5), s5)
              \<longrightarrow> fst (Run c options s)
                    = (results5, Some (errors_New ''at least one test case failed''))
                  \<and> length results5 = length (before @ testCaseFile # after)
                  \<and> take (Suc (length before)) results5 = results2 @ [tr])"
proof -
  have "Name (new_TestResult options (name c tc)) = name c tc"
    by (simp add: new_TestResult_def)
  with run_mismatch [OF assms] show ?thesis
    by (intro exI [where x = "new_TestResult options (name c tc)"] conjI) blast+
qed

text \<open>
  The claim as stated fails when a later case aborts the run: \<open>case1.json\<close> differs from
  its golden file and \<open>case2.csv\<close> cannot be loaded; the error returned is the load
  error and not \<open>at least one test case failed\<close>.
\<close>

theorem Run_mismatch_then_abort:
  "compareResults folder_collaborators
      (world (folder_sys [(''case1.json'', ''a''), (''case2.csv'', ''b'')] [(''/t/case1.json'', ''zz'')] [] False))
      ''/t/case1.json'' ''a'' = Some errTestCaseFailed
   \<and> fst (Run folder_collaborators (folder_options False)
          (folder_sys [(''case1.json'', ''a''), (''case2.csv'', ''b'')] [(''/t/case1.json'', ''zz'')] [] False))
     = ([\<lparr>TestType = ''pipeline'', Package = ''pkg'', DataStream = ''ds'', Name = ''case1.json'',
          TimeElapsed = 0, ErrorMsg = '''', FailureMsg = '''', FailureDetails = ''''\<rparr>],
        Some (errors_Wrap (errors_New ''unsupported extension for test case file (ext: .csv)'')
                   ''loading test case failed''))
   \<and> snd (fst (Run folder_collaborators (folder_options False)
          (folder_sys [(''case1.json'', ''a''), (''case2.csv'', ''b'')] [(''/t/case1.json'', ''zz'')] [] False)))
     \<noteq> Some (errors_New ''at least one test case failed'')"
  by (simp add: folder_eval)


text \<open>
  Three cases, the second of which differs from its golden file.
\<close>

theorem Run_mismatch_goes_on_witness:
  "compareResults folder_collaborators
      (world (folder_sys [(''case1.json'', ''a''), (''case2.json'', ''b''), (''case3.json'', ''c'')]
             [(''/t/case1.json'', ''a''), (''/t/case2.json'', ''zz''), (''/t/case3.json'', ''c'')]
             [] False))
      ''/t/case2.json'' ''b'' = Some errTestCaseFailed
   \<and> map Name (fst (fst (Run folder_collaborators (folder_options False)
          (folder_sys [(''case1.json'', ''a''), (''case2.json'', ''b''), (''case3.json'', ''c'')]
             [(''/t/case1.json'', ''a''), (''/t/case2.json'', ''zz''), (''/t/case3.json'', ''c'')]
             [] False))))
       = [''case1.json'', ''case2.json'', ''case3.json'']
   \<and> snd (fst (Run folder_collaborators (folder_options False)
          (folder_sys [(''case1.json'', ''a''), (''case2.json'', ''b''), (''case3.json'', ''c'')]
             [(''/t/case1.json'', ''a''), (''/t/case2.json'', ''zz''), (''/t/case3.json'', ''c'')]
             [] False)))
       = Some (errors_New ''at least one test case failed'')"
proof -
  let ?c = folder_collaborators and ?o = "folder_options False"
  let ?s = "folder_sys [(''case1.json'', ''a''), (''case2.json'', ''b''), (''case3.json'', ''c'')]
             [(''/t/case1.json'', ''a''), (''/t/case2.json'', ''zz''), (''/t/case3.json'', ''c'')]
             [] False"
  define s1 where "s1 = snd (call_installIngestPipelines ?c () ''/pkg/data_stream/ds'' ?s)"
  define s2 where "s2 = snd (run_cases ?c ?o ''entry'' [''case1.json''] False [] s1)"
  define s3 where "s3 = snd (call_simulatePipelineProcessing ?c () ''entry'' (''case2.json'', ''b'')
                               (fmt_Printf (''Test case: case2.json'' @ [CHR 0x0A]) s2))"
  define s5 where "s5 = snd (run_cases ?c ?o ''entry''
                               ([''case1.json''] @ ''case2.json'' # [''case3.json'']) False [] s1)"
  have mismatch: "compareResults ?c (world ?s) ''/t/case2.json'' ''b'' = Some errTestCaseFailed"
    by (simp add: folder_eval)
  have h1: "listTestCaseFiles ?c ?o (world ?s) = Inr ([''case1.json''] @ ''case2.json'' # [''case3.json''])"
    by (simp add: folder_eval)
  have h2: "FindDataStreamRootForPath ?c (world ?s) (Path (TestFolder ?o))
              = Inr (''/pkg/data_stream/ds'', True)"
    by (simp add: folder_eval)
  have h3: "call_installIngestPipelines ?c (ESClient ?o) ''/pkg/data_stream/ds'' ?s
              = (Inr (''entry'', [''entry'', ''sub'']), s1)"
    by (simp add: s1_def folder_eval)
  have h4: "run_cases ?c ?o ''entry'' [''case1.json''] False [] s1
              = (Inr (False, [new_TestResult ?o ''case1.json'']), s2)"
    by (simp add: s2_def s1_def folder_eval)
  have h5: "loadTestCaseFile ?c ?o ''case2.json'' (world s2) = Inr (''case2.json'', ''b'')"
    by (simp add: s2_def s1_def folder_eval)
  have h6: "call_simulatePipelineProcessing ?c (ESClient ?o) ''entry'' (''case2.json'', ''b'')
           (fmt_Printf (''Test case: '' @ name ?c (''case2.json'', ''b'') @ [CHR 0x0A]) s2)
              = (Inr ''b'', s3)"
    by (simp add: s3_def s2_def s1_def folder_eval)
  have h7: "verifyResults ?c ?o ''case2.json'' ''b'' s3 = (Some errTestCaseFailed, s3)"
    by (simp add: s3_def s2_def s1_def folder_eval)
  have whole: "run_cases ?c ?o ''entry'' ([''case1.json''] @ ''case2.json'' # [''case3.json''])
                 False [] s1
            = (Inr (True, [new_TestResult ?o ''case1.json'', new_TestResult ?o ''case2.json'',
                           new_TestResult ?o ''case3.json'']), s5)"
    by (simp add: s5_def s1_def folder_eval)
  from Run_mismatch_goes_on [OF h1 h2 h3 h4 h5 h6 h7] obtain tr where
    goes_on: "run_cases ?c ?o ''entry'' ([''case1.json''] @ ''case2.json'' # [''case3.json''])
                False [] s1
              = run_cases ?c ?o ''entry'' [''case3.json''] True
                  ([new_TestResult ?o ''case1.json''] @ [tr]) s3"
    and returned: "\<And>failed5 results5 s5.
              run_cases ?c ?o ''entry'' [''case3.json''] True
                  ([new_TestResult ?o ''case1.json''] @ [tr]) s3 = (Inr (failed5, results5), s5)
              \<Longrightarrow> fst (Run ?c ?o ?s)
                    = (results5, Some (errors_New ''at least one test case failed''))"
    by blast
  from returned [OF goes_on [symmetric, unfolded whole]] mismatch
  show ?thesis
    by (simp add: new_TestResult_def)
qed

section \<open>Teardown\<close>

text \<open>
  C4. When provisioning succeeds, the run calls \<open>uninstallIngestPipelines\<close> with every
  installed pipeline identifier before it returns, on every exit path of the loop over
  the test cases (\<open>r\<close> is how the loop ended: a fatal abort, a mismatch, or success, and
  \<open>s2\<close> the state it left). The state that \<open>Run\<close> leaves is the one the uninstallation
  produces from \<open>s2\<close>; a warning is logged exactly when the uninstallation answers
  with an error, and nothing else follows it. The results and the error that \<open>Run\<close>
  returns are those of the loop, whatever \<open>uninstallIngestPipelines\<close> does.
\<close>

theorem Run_uninstalls:
  assumes "listTestCaseFiles c options (world s) = Inr testCaseFiles"
    and "FindDataStreamRootForPath c (world s) (Path (TestFolder options)) = Inr (dataStreamPath, True)"
    and "installIngestPipelines c (world s) (ESClient options) dataStreamPath
           = (Inr (entryPipeline, pipelineIDs), w1)"
    and "run_cases c options entryPipeline testCaseFiles False []
           (s\<lparr>world := w1, events := events s @ [Install dataStreamPath]\<rparr>) = (r, s2)"
    and "uninstallIngestPipelines c (world s2) (ESClient options) pipelineIDs = (answer, w3)"
  shows "snd (Run c options s)
           = s2\<lparr>world := w3,
                events := events s2 @ Uninstall pipelineIDs
                          # (case answer of
                               None \<Rightarrow> []
                             | Some err \<Rightarrow>
                                 [Warnf (''uninstalling ingest pipelines failed: ''
                                         @ Error_text (errTestCaseFailed_text c) err)])\<rparr>
         \<and> (\<exists>evs. events s2 = events s @ Install dataStreamPath # evs
                  \<and> (\<forall>ev\<in>set evs. case_event ev))
         \<and> fst (Run c options s)
             = (case r of
                  Inl (results, err) \<Rightarrow> (results, Some err)
                | Inr (failed, results) \<Rightarrow>
                    (results,
                     if failed then Some (errors_New ''at least one test case failed'') else None))
         \<and> (\<forall>u. fst (Run (c\<lparr>uninstallIngestPipelines := u\<rparr>) options s) = fst (Run c options s))"
proof -
  let ?s1 = "s\<lparr>world := w1, events := events s @ [Install dataStreamPath]\<rparr>"
  have inst: "call_installIngestPipelines c (ESClient options) dataStreamPath s
                = (Inr (entryPipeline, pipelineIDs), ?s1)"
    using assms(3) by (simp add: call_installIngestPipelines_def)
  from run_cases_events [OF assms(4)] have
    evs: "\<exists>evs. events s2 = events s @ Install dataStreamPath # evs
                \<and> (\<forall>ev\<in>set evs. case_event ev)"
    by auto
  have whole: "Run c options s =
     ((case r of Inl (results, err) \<Rightarrow> (results, Some err)
       | Inr (failed, results) \<Rightarrow>
           (results, if failed then Some (errors_New ''at least one test case failed'') else None)),
      run_deferred c options pipelineIDs s2)"
    using run_completed [OF assms(1,2) inst assms(4)] by (simp add: Run_def)
  have left: "snd (Run c options s)
           = s2\<lparr>world := w3,
                events := events s2 @ Uninstall pipelineIDs
                          # (case answer of
                               None \<Rightarrow> []
                             | Some err \<Rightarrow>
                                 [Warnf (''uninstalling ingest pipelines failed: ''
                                         @ Error_text (errTestCaseFailed_text c) err)])\<rparr>"
    by (simp only: whole snd_conv run_deferred_state [OF assms(5)])
  have returned: "fst (Run c options s)
             = (case r of
                  Inl (results, err) \<Rightarrow> (results, Some err)
                | Inr (failed, results) \<Rightarrow>
                    (results,
                     if failed then Some (errors_New ''at least one test case failed'') else None))"
    by (simp only: whole fst_conv)
  have free: "\<forall>u. fst (Run (c\<lparr>uninstallIngestPipelines := u\<rparr>) options s) = fst (Run c options s)"
    by (simp add: Run_def run_result_uninstall_free)
  from left evs returned free show ?thesis
    by (intro conjI)
qed

text \<open>
  Two runs on a folder whose first case differs from its golden file and whose second
  case makes the engine fail, so that the loop aborts. On an engine that uninstalls, no
  pipeline is left installed and no warning is logged. On an engine that refuses, the
  two pipelines stay installed, the refusal is logged as a warning, and the results and
  the error are the same.
\<close>

theorem Run_uninstalls_witness:
  "installed (world (snd (Run folder_collaborators (folder_options False)
          (folder_sys [(''case1.json'', ''a''), (''case2.json'', ''down'')]
             [(''/t/case1.json'', ''zz'')] [] False)))) = []
   \<and> events (snd (Run folder_collaborators (folder_options False)
          (folder_sys [(''case1.json'', ''a''), (''case2.json'', ''down'')]
             [(''/t/case1.json'', ''zz'')] [] False)))
     = [Install ''/pkg/data_stream/ds'',
        Printf (''Test case: case1.json'' @ [CHR 0x0A]), Simulate ''entry'' ''case1.json'',
        Printf (''Test case: case2.json'' @ [CHR 0x0A]), Simulate ''entry'' ''case2.json'',
        Uninstall [''entry'', ''sub'']]
   \<and> installed (world (snd (Run folder_collaborators (folder_options False)
          (folder_sys [(''case1.json'', ''a''), (''case2.json'', ''down'')]
             [(''/t/case1.json'', ''zz'')] [] True)))) = [''entry'', ''sub'']
   \<and> events (snd (Run folder_collaborators (folder_options False)
          (folder_sys [(''case1.json'', ''a''), (''case2.json'', ''down'')]
             [(''/t/case1.json'', ''zz'')] [] True)))
     = [Install ''/pkg/data_stream/ds'',
        Printf (''Test case: case1.json'' @ [CHR 0x0A]), Simulate ''entry'' ''case1.json'',
        Printf (''Test case: case2.json'' @ [CHR 0x0A]), Simulate ''entry'' ''case2.json'',
        Uninstall [''entry'', ''sub''],
        Warnf ''uninstalling ingest pipelines failed: connection refused'']
   \<and> fst (Run folder_collaborators (folder_options False)
          (folder_sys [(''case1.json'', ''a''), (''case2.json'', ''down'')]
             [(''/t/case1.json'', ''zz'')] [] True))
     = ([new_TestResult (folder_options False) ''case1.json'',
         new_TestResult (folder_options False) ''case2.json''],
        Some (errors_Wrap (errors_New ''engine is down'')
                ''simulating pipeline processing failed''))
   \<and> fst (Run (folder_collaborators\<lparr>uninstallIngestPipelines := (\<lambda>w es ids. (None, w))\<rparr>)
          (folder_options False)
          (folder_sys [(''case1.json'', ''a''), (''case2.json'', ''down'')]
             [(''/t/case1.json'', ''zz'')] [] True))
     = fst (Run folder_collaborators (folder_options False)
          (folder_sys [(''case1.json'', ''a''), (''case2.json'', ''down'')]
             [(''/t/case1.json'', ''zz'')] [] True))"
proof -
  let ?c = folder_collaborators and ?o = "folder_options False"
  let ?s = "\<lambda>refused. folder_sys [(''case1.json'', ''a''), (''case2.json'', ''down'')]
                       [(''/t/case1.json'', ''zz'')] [] refused"
  let ?w1 = "\<lambda>refused. (world (?s refused))\<lparr>installed := [''entry'', ''sub'']\<rparr>"
  let ?s1 = "\<lambda>refused. (?s refused)\<lparr>world := ?w1 refused,
                events := events (?s refused) @ [Install ''/pkg/data_stream/ds'']\<rparr>"
  let ?r = "Inl ([new_TestResult ?o ''case1.json'', new_TestResult ?o ''case2.json''],
                 errors_Wrap (errors_New ''engine is down'')
                   ''simulating pipeline processing failed'')"
  define s2 where
    "s2 refused = snd (run_cases ?c ?o ''entry'' [''case1.json'', ''case2.json''] False []
                        (?s1 refused))" for refused
  have h1: "listTestCaseFiles ?c ?o (world (?s refused)) = Inr [''case1.json'', ''case2.json'']"
    for refused
    by (simp add: folder_eval)
  have h2: "FindDataStreamRootForPath ?c (world (?s refused)) (Path (TestFolder ?o))
              = Inr (''/pkg/data_stream/ds'', True)" for refused
    by (simp add: folder_eval)
  have h3: "installIngestPipelines ?c (world (?s refused)) (ESClient ?o) ''/pkg/data_stream/ds''
              = (Inr (''entry'', [''entry'', ''sub'']), ?w1 refused)" for refused
    by (simp add: folder_eval)
  have h4: "run_cases ?c ?o ''entry'' [''case1.json'', ''case2.json''] False [] (?s1 refused)
              = (?r, s2 refused)" for refused
    by (simp add: s2_def folder_eval new_TestResult_def)
  have s2_events: "events (s2 refused) =
        [Install ''/pkg/data_stream/ds'',
         Printf (''Test case: case1.json'' @ [CHR 0x0A]), Simulate ''entry'' ''case1.json'',
         Printf (''Test case: case2.json'' @ [CHR 0x0A]), Simulate ''entry'' ''case2.json'']"
    for refused
    by (simp add: s2_def folder_eval)
  have h5: "uninstallIngestPipelines ?c (world (s2 False)) (ESClient ?o) [''entry'', ''sub'']
              = (None, (world (s2 False))\<lparr>installed := []\<rparr>)"
    by (simp add: s2_def folder_eval)
  have h5': "uninstallIngestPipelines ?c (world (s2 True)) (ESClient ?o) [''entry'', ''sub'']
              = (Some (errors_New ''connection refused''), world (s2 True))"
    by (simp add: s2_def folder_eval)
  have still: "installed (world (s2 True)) = [''entry'', ''sub'']"
    by (simp add: s2_def folder_eval)
  note uninstalls = Run_uninstalls [OF h1 h2 h3 h4 h5]
  note refuses = Run_uninstalls [OF h1 h2 h3 h4 h5']
  from uninstalls have a: "installed (world (snd (Run ?c ?o (?s False)))) = []"
      "events (snd (Run ?c ?o (?s False))) = events (s2 False) @ [Uninstall [''entry'', ''sub'']]"
    by simp_all
  from refuses have b: "installed (world (snd (Run ?c ?o (?s True)))) = installed (world (s2 True))"
      "events (snd (Run ?c ?o (?s True)))
         = events (s2 True) @ [Uninstall [''entry'', ''sub''],
             Warnf (''uninstalling ingest pipelines failed: ''
                    @ Error_text (errTestCaseFailed_text ?c) (errors_New ''connection refused''))]"
      "fst (Run ?c ?o (?s True)) = (case ?r of
                  Inl (results, err) \<Rightarrow> (results, Some err)
                | Inr (failed, results) \<Rightarrow>
                    (results,
                     if failed then Some (errors_New ''at least one test case failed'') else None))"
      "fst (Run (?c\<lparr>uninstallIngestPipelines := (\<lambda>w es ids. (None, w))\<rparr>) ?o (?s True))
         = fst (Run ?c ?o (?s True))"
    by simp_all
  have warned: "''uninstalling ingest pipelines failed: ''
                @ Error_text (errTestCaseFailed_text ?c) (errors_New ''connection refused'')
              = ''uninstalling ingest pipelines failed: connection refused''"
    by (simp add: folder_eval)
  show ?thesis
    using a b(1,2,4) b(3) still
    unfolding s2_events warned
    by simp
qed

section \<open>Generate mode\<close>

text \<open>
  C7, as amended. With generate mode enabled, \<open>verifyResults\<close> first writes the observed
  result as the new golden file. When the write succeeds, the comparison runs on the
  state the write leaves, and under the round trip of the golden-file store
  \<open>verifyResults\<close> returns no error; when the write fails, \<open>verifyResults\<close> returns the
  error of the write, wrapped, and does not compare.
\<close>

theorem verifyResults_generate:
  assumes "GenerateTestResult options" and "write_then_compare c"
  shows "(writeTestResult c (world s) (filepath_Join c (Path (TestFolder options)) testCaseFile) result
            = (None, w') \<longrightarrow>
          verifyResults c options testCaseFile result s =
            (None, s\<lparr>world := w', events := events s @
                [WriteTestResult (filepath_Join c (Path (TestFolder options)) testCaseFile)]\<rparr>))
       \<and> (writeTestResult c (world s) (filepath_Join c (Path (TestFolder options)) testCaseFile) result
            = (Some err, w') \<longrightarrow>
          verifyResults c options testCaseFile result s =
            (Some (errors_Wrap err ''writing test result failed''),
             s\<lparr>world := w', events := events s @
                [WriteTestResult (filepath_Join c (Path (TestFolder options)) testCaseFile)]\<rparr>))"
  using assms
  by (auto simp: verifyResults_def verifyResults_compare_def call_writeTestResult_def
        write_then_compare_def Let_def)


text \<open>
  The claim as stated fails when the golden file cannot be written: the store has the
  round trip, generate mode is enabled, and \<open>verifyResults\<close> returns an error.
\<close>

theorem verifyResults_generate_write_fails:
  "write_then_compare folder_collaborators
   \<and> GenerateTestResult (folder_options True)
   \<and> fst (verifyResults folder_collaborators (folder_options True) ''case1.json'' ''a''
        (folder_sys [(''case1.json'', ''a'')] [] [''/t/case1.json''] False))
      = Some (errors_Wrap (errors_New ''permission denied'') ''writing test result failed'')"
  by (simp add: folder_write_then_compare) (simp add: folder_eval)


text \<open>
  A golden file that differs from the observed result and is overwritten, and one that
  cannot be written.
\<close>

theorem verifyResults_generate_witness:
  "GenerateTestResult (folder_options True)
   \<and> write_then_compare folder_collaborators
   \<and> verifyResults folder_collaborators (folder_options True) ''case1.json'' ''a''
        (folder_sys [(''case1.json'', ''a'')] [(''/t/case1.json'', ''zz'')] [] False)
      = (None, \<lparr>world = \<lparr>folder = ''/t'', dir = [(''case1.json'', ''a'')],
                   golden = [(''/t/case1.json'', ''a''), (''/t/case1.json'', ''zz'')], readonly = [],
                   installed = [], uninstall_refused = False, clock = 0\<rparr>,
                 events = [WriteTestResult ''/t/case1.json'']\<rparr>)
   \<and> verifyResults folder_collaborators (folder_options True) ''case1.json'' ''a''
        (folder_sys [(''case1.json'', ''a'')] [(''/t/case1.json'', ''zz'')] [''/t/case1.json''] False)
      = (Some (errors_Wrap (errors_New ''permission denied'') ''writing test result failed''),
         \<lparr>world = \<lparr>folder = ''/t'', dir = [(''case1.json'', ''a'')],
                   golden = [(''/t/case1.json'', ''zz'')], readonly = [''/t/case1.json''],
                   installed = [], uninstall_refused = False, clock = 0\<rparr>,
                 events = [WriteTestResult ''/t/case1.json'']\<rparr>)"
proof -
  have g: "GenerateTestResult (folder_options True)"
    by (simp add: folder_options_def)
  note t = verifyResults_generate [OF g folder_write_then_compare]
  have a: "writeTestResult folder_collaborators
        (world (folder_sys [(''case1.json'', ''a'')] [(''/t/case1.json'', ''zz'')] [] False))
        (filepath_Join folder_collaborators (Path (TestFolder (folder_options True))) ''case1.json'') ''a''
      = (None, \<lparr>folder = ''/t'', dir = [(''case1.json'', ''a'')],
                   golden = [(''/t/case1.json'', ''a''), (''/t/case1.json'', ''zz'')], readonly = [],
                   installed = [], uninstall_refused = False, clock = 0\<rparr>)"
    by (simp add: folder_collaborators_def folder_options_def folder_sys_def)
  have b: "writeTestResult folder_collaborators
        (world (folder_sys [(''case1.json'', ''a'')] [(''/t/case1.json'', ''zz'')] [''/t/case1.json''] False))
        (filepath_Join folder_collaborators (Path (TestFolder (folder_options True))) ''case1.json'') ''a''
      = (Some (errors_New ''permission denied''), \<lparr>folder = ''/t'', dir = [(''case1.json'', ''a'')],
                   golden = [(''/t/case1.json'', ''zz'')], readonly = [''/t/case1.json''],
                   installed = [], uninstall_refused = False, clock = 0\<rparr>)"
    by (simp add: folder_collaborators_def folder_options_def folder_sys_def)
  from t [THEN conjunct1, rule_format, OF a] t [THEN conjunct2, rule_format, OF b] g
    folder_write_then_compare
  show ?thesis
    by (simp add: folder_collaborators_def folder_options_def folder_sys_def)
qed

section \<open>Grouping the results\<close>

lemma index_update: "index (AList.update k v m) k' = (if k' = k then v else index m k')"
  by (simp add: index_def update_conv')

lemma index_absent: "k \<notin> fst ` set m \<Longrightarrow> index m k = []"
  by (simp add: index_def map_of_eq_None_iff [THEN iffD2])

lemma keys_update: "fst ` set (AList.update k v m) = insert k (fst ` set m)"
  by (simp add: dom_update)

lemma index_assign2:
  "index (assign2 m a b v) a' = (if a' = a then AList.update b v (index m a) else index m a')"
  by (simp add: assign2_def index_update)

lemma keys_assign2: "fst ` set (assign2 m a b v) = insert a (fst ` set m)"
  by (simp add: assign2_def keys_update)

lemma index_assign3:
  "index (assign3 m a b c v) a' = (if a' = a then assign2 (index m a) b c v else index m a')"
  by (simp add: assign3_def index_update)

lemma keys_assign3: "fst ` set (assign3 m a b c v) = insert a (fst ` set m)"
  by (simp add: assign3_def keys_update)

lemma index_ensure1 [simp]: "index (ensure1 m a) a' = index m a'"
  by (simp add: ensure1_def index_update index_absent map_of_eq_None_iff)

lemma keys_ensure1 [simp]: "fst ` set (ensure1 m a) = insert a (fst ` set m)"
  by (auto simp: ensure1_def keys_update map_of_eq_None_iff)

lemma distinct_update_iff:
  "distinct (map fst (AList.update k v m)) = distinct (map fst m)"
  by (auto simp: update_keys)

lemma distinct_assign2: "distinct (map fst (assign2 m a b v)) = distinct (map fst m)"
  by (simp add: assign2_def distinct_update_iff)

lemma distinct_assign3: "distinct (map fst (assign3 m a b c v)) = distinct (map fst m)"
  by (simp add: assign3_def distinct_update_iff)

lemma distinct_ensure1 [simp]: "distinct (map fst (ensure1 m a)) = distinct (map fst m)"
  by (simp add: ensure1_def distinct_update_iff)

lemma index_ensure2 [simp]:
  "index (ensure2 m a b) a' = (if a' = a then ensure1 (index m a) b else index m a')"
  by (simp add: ensure2_def ensure1_def index_assign2)

lemma keys_ensure2 [simp]:
  "a \<in> fst ` set m \<Longrightarrow> fst ` set (ensure2 m a b) = fst ` set m"
  by (auto simp: ensure2_def keys_assign2)

lemma distinct_ensure2 [simp]: "distinct (map fst (ensure2 m a b)) = distinct (map fst m)"
  by (simp add: ensure2_def assign2_def distinct_update_iff)

lemma index_ensure3 [simp]:
  "index (ensure3 m a b c) a' = (if a' = a then ensure2 (index m a) b c else index m a')"
  by (simp add: ensure3_def ensure2_def index_assign3)

lemma keys_ensure3 [simp]:
  "a \<in> fst ` set m \<Longrightarrow> fst ` set (ensure3 m a b c) = fst ` set m"
  by (auto simp: ensure3_def keys_assign3)

lemma distinct_ensure3 [simp]: "distinct (map fst (ensure3 m a b c)) = distinct (map fst m)"
  by (simp add: ensure3_def assign3_def distinct_update_iff)

lemma add_tests:
  "fst (reportXUnitFormat_add r (tests, n, f, e)) =
     (let m = ensure3 (ensure2 (ensure1 tests (TestType r)) (TestType r) (Package r))
                (TestType r) (Package r) (DataStream r)
      in assign3 m (TestType r) (Package r) (DataStream r)
           (index (index (index m (TestType r)) (Package r)) (DataStream r) @ [xunit_case r]))"
  unfolding reportXUnitFormat_add_def ensure1_def ensure2_def ensure3_def xunit_case_def Let_def
  by (cases "FailureMsg r = []"; cases "FailureDetails r = []")
     (simp_all add: split_def split del: if_split cong: if_cong)

lemma add_counts:
  "snd (reportXUnitFormat_add r (tests, n, f, e)) =
     (n + 1, f + (if FailureMsg r \<noteq> '''' then 1 else 0),
      e + (if ErrorMsg r \<noteq> '''' then 1 else 0))"
  by (simp add: reportXUnitFormat_add_def Let_def split_def)

lemma add_keys1:
  "fst ` set (fst (reportXUnitFormat_add r (tests, n, f, e))) = insert (TestType r) (fst ` set tests)"
  by (simp add: add_tests Let_def keys_assign3)

lemma add_keys2:
  "fst ` set (index (fst (reportXUnitFormat_add r (tests, n, f, e))) t) =
       (if t = TestType r then insert (Package r) (fst ` set (index tests t))
        else fst ` set (index tests t))"
  by (simp add: add_tests Let_def index_assign3 keys_assign2)

lemma add_keys3:
  "fst ` set (index (index (fst (reportXUnitFormat_add r (tests, n, f, e))) t) p) =
       (if t = TestType r \<and> p = Package r
        then insert (DataStream r) (fst ` set (index (index tests t) p))
        else fst ` set (index (index tests t) p))"
  by (simp add: add_tests Let_def index_assign3 index_assign2 keys_update)

lemma add_cases:
  "index (index (index (fst (reportXUnitFormat_add r (tests, n, f, e))) t) p) d =
       (if in_group t p d r then index (index (index tests t) p) d @ [xunit_case r]
        else index (index (index tests t) p) d)"
  by (simp add: add_tests Let_def index_assign3 index_assign2 index_update in_group_def)

lemma add_distinct:
  "distinct (map fst (fst (reportXUnitFormat_add r (tests, n, f, e)))) = distinct (map fst tests)"
  "distinct (map fst (index (fst (reportXUnitFormat_add r (tests, n, f, e))) t))
     = distinct (map fst (index tests t))"
  "distinct (map fst (index (index (fst (reportXUnitFormat_add r (tests, n, f, e))) t) p))
     = distinct (map fst (index (index tests t) p))"
  by (simp_all add: add_tests Let_def index_assign3 index_assign2 distinct_assign3 distinct_assign2
        distinct_update_iff)

lemma add_collapse:
  "reportXUnitFormat_add r st =
     (fst (reportXUnitFormat_add r (fst st, fst (snd st), fst (snd (snd st)), snd (snd (snd st)))),
      snd (reportXUnitFormat_add r (fst st, fst (snd st), fst (snd (snd st)), snd (snd (snd st)))))"
  by simp

lemma loop_counts:
  "snd (reportXUnitFormat_loop rs (tests, n, f, e)) =
     (n + int (length rs),
      f + int (length (filter (\<lambda>r. FailureMsg r \<noteq> '''') rs)),
      e + int (length (filter (\<lambda>r. ErrorMsg r \<noteq> '''') rs)))"
proof (induction rs arbitrary: tests n f e)
  case Nil
  then show ?case by simp
next
  case (Cons r rs)
  obtain tests' where "reportXUnitFormat_add r (tests, n, f, e) =
      (tests', n + 1, f + (if FailureMsg r \<noteq> '''' then 1 else 0),
       e + (if ErrorMsg r \<noteq> '''' then 1 else 0))"
    using add_counts [of r tests n f e] by (metis prod.collapse)
  then show ?case
    by (simp add: Cons.IH)
qed

lemma loop_keys1:
  "fst ` set (fst (reportXUnitFormat_loop rs st)) = fst ` set (fst st) \<union> TestType ` set rs"
proof (induction rs arbitrary: st)
  case Nil
  then show ?case by simp
next
  case (Cons r rs)
  show ?case
    by (cases st) (simp add: Cons.IH add_keys1)
qed

lemma loop_keys2:
  "fst ` set (index (fst (reportXUnitFormat_loop rs st)) t) =
     fst ` set (index (fst st) t) \<union> Package ` {r \<in> set rs. TestType r = t}"
proof (induction rs arbitrary: st)
  case Nil
  then show ?case by simp
next
  case (Cons r rs)
  show ?case
    by (cases st) (auto simp: Cons.IH add_keys2)
qed

lemma loop_keys3:
  "fst ` set (index (index (fst (reportXUnitFormat_loop rs st)) t) p) =
     fst ` set (index (index (fst st) t) p)
       \<union> DataStream ` {r \<in> set rs. TestType r = t \<and> Package r = p}"
proof (induction rs arbitrary: st)
  case Nil
  then show ?case by simp
next
  case (Cons r rs)
  show ?case
    by (cases st) (auto simp: Cons.IH add_keys3)
qed

lemma loop_cases:
  "index (index (index (fst (reportXUnitFormat_loop rs st)) t) p) d =
     index (index (index (fst st) t) p) d @ map xunit_case (filter (in_group t p d) rs)"
proof (induction rs arbitrary: st)
  case Nil
  then show ?case by simp
next
  case (Cons r rs)
  show ?case
    by (cases st) (simp add: Cons.IH add_cases)
qed

lemma loop_distinct:
  "distinct (map fst (fst (reportXUnitFormat_loop rs st))) = distinct (map fst (fst st))"
  "distinct (map fst (index (fst (reportXUnitFormat_loop rs st)) t))
     = distinct (map fst (index (fst st) t))"
  "distinct (map fst (index (index (fst (reportXUnitFormat_loop rs st)) t) p))
     = distinct (map fst (index (index (fst st) t) p))"
proof (induction rs arbitrary: st)
  case Nil
  {
    case 1 show ?case by simp
  next
    case 2 show ?case by simp
  next
    case 3 show ?case by simp
  }
next
  case (Cons r rs)
  {
    case 1 show ?case by (cases st) (simp add: Cons.IH add_distinct)
  next
    case 2 show ?case by (cases st) (simp add: Cons.IH add_distinct)
  next
    case 3 show ?case by (cases st) (simp add: Cons.IH add_distinct)
  }
qed

lemma index_Nil [simp]: "index [] k = []"
  by (simp add: index_def)

lemma go_iteration_set: "go_iteration it \<Longrightarrow> set (it path ks) = set ks"
  by (metis go_iteration_def mset_eq_setD)

lemma go_iteration_length: "go_iteration it \<Longrightarrow> length (it path ks) = length ks"
  by (metis go_iteration_def mset_eq_length)

lemma go_iteration_single:
  "go_iteration it \<Longrightarrow> distinct ks \<Longrightarrow> set ks \<subseteq> {k} \<Longrightarrow> it path ks = ks"
proof -
  assume g: "go_iteration it" and d: "distinct ks" and s: "set ks \<subseteq> {k}"
  have "ks = [] \<or> ks = [k]"
  proof (cases ks)
    case Nil
    then show ?thesis by simp
  next
    case (Cons a as)
    with s have "a = k" by simp
    moreover from Cons d s have "as = []"
      by (cases as) auto
    ultimately show ?thesis using Cons by simp
  qed
  moreover have "mset (it path ks) = mset ks"
    using g by (simp add: go_iteration_def)
  ultimately show ?thesis
    by auto
qed

lemma map_range_keys:
  assumes "set ks \<subseteq> fst ` set m"
  shows "concat (map (\<lambda>k. case map_of m k of None \<Rightarrow> [] | Some v \<Rightarrow> [(k, v)]) ks)
           = map (\<lambda>k. (k, index m k)) ks"
  using assms
proof (induction ks)
  case Nil
  then show ?case by simp
next
  case (Cons k ks)
  from Cons.prems have "k \<in> fst ` set m" by simp
  then obtain v where "map_of m k = Some v"
    by (metis map_of_eq_None_iff not_Some_eq)
  with Cons show ?case
    by (simp add: index_def)
qed

lemma map_range_go:
  "go_iteration it \<Longrightarrow>
     map_range (it path) m = map (\<lambda>k. (k, index m k)) (it path (map fst m))"
  unfolding map_range_def
  by (rule map_range_keys) (simp add: go_iteration_set)

lemma index_member: "distinct (map fst m) \<Longrightarrow> (k, v) \<in> set m \<Longrightarrow> index m k = v"
  by (simp add: index_def)

lemma map_index_keys: "distinct (map fst m) \<Longrightarrow> map (\<lambda>k. (k, index m k)) (map fst m) = m"
  by (auto intro!: map_idI simp: index_member)

lemma map_range_single:
  assumes "go_iteration it" and "distinct (map fst m)" and "fst ` set m \<subseteq> {k}"
  shows "map_range (it path) m = (m :: (string \<times> 'v list) list)"
proof -
  have same: "it path (map fst m) = map fst m"
    using assms by (intro go_iteration_single [where k = k]) auto
  have "map_range (it path) m = map (\<lambda>k. (k, index m k)) (it path (map fst m))"
    using assms(1) by (rule map_range_go)
  also have "\<dots> = map (\<lambda>k. (k, index m k)) (map fst m)"
    by (simp only: same)
  also have "\<dots> = m"
    using assms(2) by (rule map_index_keys)
  finally show ?thesis .
qed

lemma set_map_range:
  assumes "go_iteration it"
  shows "set (map_range (it path) m) = (\<lambda>k. (k, index m k)) ` fst ` set m"
  using assms by (simp add: map_range_go go_iteration_set image_image)

lemma ts_grouped:
  "reportXUnitFormat_ts it results =
     \<lparr>Suites_root = testTypeSuites it (grouped results) (int (length results))
        (int (length (filter (\<lambda>r. FailureMsg r \<noteq> '''') results)))
        (int (length (filter (\<lambda>r. ErrorMsg r \<noteq> '''') results)))\<rparr>"
proof -
  have "reportXUnitFormat_loop results ([], 0, 0, 0) =
      (grouped results, snd (reportXUnitFormat_loop results ([], 0, 0, 0)))"
    by (simp add: grouped_def)
  then show ?thesis
    by (simp add: reportXUnitFormat_ts_def loop_counts)
qed

lemma grouped_keys1: "fst ` set (grouped results) = TestType ` set results"
  by (simp add: grouped_def loop_keys1)

lemma grouped_keys2:
  "fst ` set (index (grouped results) t) = Package ` {r \<in> set results. TestType r = t}"
  by (simp add: grouped_def loop_keys2)

lemma grouped_keys3:
  "fst ` set (index (index (grouped results) t) p)
     = DataStream ` {r \<in> set results. TestType r = t \<and> Package r = p}"
  by (simp add: grouped_def loop_keys3)

lemma grouped_cases:
  "index (index (index (grouped results) t) p) d = map xunit_case (filter (in_group t p d) results)"
  by (simp add: grouped_def loop_cases)

lemma grouped_distinct:
  "distinct (map fst (grouped results))"
  "distinct (map fst (index (grouped results) t))"
  "distinct (map fst (index (index (grouped results) t) p))"
  by (simp_all add: grouped_def loop_distinct)

lemma suite_of_result:
  assumes "go_iteration it" and "r \<in> set results"
  shows "\<exists>tt\<in>set (Suites_root (reportXUnitFormat_ts it results)). Name_s tt = TestType r \<and>
          (\<exists>pk\<in>set (Suites tt). Name_s pk = Package r \<and>
            (\<exists>ds\<in>set (Suites pk). Name_s ds = DataStream r \<and>
               Cases ds = map xunit_case
                 (filter (in_group (TestType r) (Package r) (DataStream r)) results)))"
proof -
  let ?t = "TestType r" and ?p = "Package r" and ?d = "DataStream r"
  let ?g = "grouped results"
  let ?ds = "TestSuite (''test suite for data stream: '' @ ?d) ?d 0 0 0 []
               (index (index (index ?g ?t) ?p) ?d)"
  let ?pk = "TestSuite (''test suite for package: '' @ ?p) ?p 0 0 0
               (dataStreamSuites it ?t ?p (index (index ?g ?t) ?p)) []"
  let ?tt = "TestSuite (''test suite for '' @ ?t @ '' tests'') ?t
               (int (length results))
               (int (length (filter (\<lambda>r. FailureMsg r \<noteq> '''') results)))
               (int (length (filter (\<lambda>r. ErrorMsg r \<noteq> '''') results)))
               (packageSuites it ?t (index ?g ?t)) []"
  have "?d \<in> fst ` set (index (index ?g ?t) ?p)"
    using assms(2) by (auto simp: grouped_keys3)
  then have ds: "?ds \<in> set (dataStreamSuites it ?t ?p (index (index ?g ?t) ?p))"
    using assms(1) by (force simp: dataStreamSuites_def set_map_range)
  have "?p \<in> fst ` set (index ?g ?t)"
    using assms(2) by (auto simp: grouped_keys2)
  then have pk: "?pk \<in> set (packageSuites it ?t (index ?g ?t))"
    using assms(1) by (force simp: packageSuites_def set_map_range)
  have "?t \<in> fst ` set ?g"
    using assms(2) by (auto simp: grouped_keys1)
  then have tt: "?tt \<in> set (Suites_root (reportXUnitFormat_ts it results))"
    using assms(1) by (force simp: ts_grouped testTypeSuites_def set_map_range)
  show ?thesis
    apply (rule bexI [OF _ tt], simp)
    apply (rule bexI [OF _ pk], simp)
    apply (rule bexI [OF _ ds], simp add: grouped_cases)
    done
qed

lemma single_group_ts:
  assumes "go_iteration it" and "\<forall>r\<in>set results. in_group t p d r"
  shows "reportXUnitFormat_ts it results = reportXUnitFormat_ts in_order results"
proof -
  let ?g = "grouped results"
  have go: "go_iteration in_order"
    by (simp add: go_iteration_def in_order_def)
  have k1: "fst ` set ?g \<subseteq> {t}"
    using assms(2) by (auto simp: grouped_keys1 in_group_def)
  have k2: "fst ` set (index ?g a) \<subseteq> {p}" for a
    using assms(2) by (auto simp: grouped_keys2 in_group_def)
  have k3: "fst ` set (index (index ?g a) b) \<subseteq> {d}" for a b
    using assms(2) by (auto simp: grouped_keys3 in_group_def)
  have r1: "map_range (i []) ?g = ?g" if "go_iteration i" for i
    using that grouped_distinct(1) k1 by (rule map_range_single)
  have r2: "map_range (i [a]) (index ?g a) = index ?g a" if "go_iteration i" for i a
    using that grouped_distinct(2) k2 by (rule map_range_single)
  have r3: "map_range (i [a, b]) (index (index ?g a) b) = index (index ?g a) b"
    if "go_iteration i" for i a b
    using that grouped_distinct(3) k3 by (rule map_range_single)
  have d: "dataStreamSuites it a b (index (index ?g a) b)
             = dataStreamSuites in_order a b (index (index ?g a) b)" for a b
    by (simp add: dataStreamSuites_def r3 assms(1) go)
  have "packageSuites it a (index ?g a) = packageSuites in_order a (index ?g a)" for a
    unfolding packageSuites_def r2 [OF assms(1)] r2 [OF go]
    by (rule map_cong [OF refl])
       (auto simp: d dest: index_member [OF grouped_distinct(2), symmetric])
  then have "testTypeSuites it ?g x y z = testTypeSuites in_order ?g x y z" for x y z
    unfolding testTypeSuites_def r1 [OF assms(1)] r1 [OF go]
    by (intro map_cong [OF refl])
       (auto dest: index_member [OF grouped_distinct(1), symmetric])
  then show ?thesis
    by (simp add: ts_grouped)
qed



section \<open>The report\<close>

text \<open>
  C3. The tests, failures and errors counts of every test-type suite of the report are
  the number of input results, the number of inputs with a non-empty \<open>FailureMsg\<close> and
  the number with a non-empty \<open>ErrorMsg\<close>, over the whole input; every test-type suite
  carries these same totals, and there is one test-type suite per test type of the
  input.
\<close>

theorem reportXUnitFormat_counts:
  "(\<forall>s\<in>set (Suites_root (reportXUnitFormat_ts it results)).
      NumTests s = int (length results)
      \<and> NumFailures s = int (length (filter (\<lambda>r. FailureMsg r \<noteq> '''') results))
      \<and> NumErrors s = int (length (filter (\<lambda>r. ErrorMsg r \<noteq> '''') results)))
   \<and> (go_iteration it \<longrightarrow>
        Name_s ` set (Suites_root (reportXUnitFormat_ts it results)) = TestType ` set results)"
proof -
  have "Name_s ` set (Suites_root (reportXUnitFormat_ts it results)) = TestType ` set results"
    if "go_iteration it"
    using that
    by (simp add: ts_grouped testTypeSuites_def set_map_range image_image grouped_keys1)
  then show ?thesis
    by (auto simp: ts_grouped testTypeSuites_def)
qed

lemma go_in_order: "go_iteration in_order"
  by (simp add: go_iteration_def in_order_def)

lemma go_in_reverse: "go_iteration in_reverse"
  by (simp add: go_iteration_def in_reverse_def)

text \<open>
  Three results of two test types: both test-type suites carry the totals 3, 1 and 1.
\<close>

theorem reportXUnitFormat_counts_witness:
  "map Name_s (Suites_root (reportXUnitFormat_ts in_order result3)) = [''pipeline'', ''system'']
   \<and> NumTests (last (Suites_root (reportXUnitFormat_ts in_order result3))) = 3
   \<and> NumFailures (last (Suites_root (reportXUnitFormat_ts in_order result3))) = 1
   \<and> NumErrors (last (Suites_root (reportXUnitFormat_ts in_order result3))) = 1
   \<and> Name_s ` set (Suites_root (reportXUnitFormat_ts in_order result3)) = {''pipeline'', ''system''}"
proof -
  have names: "map Name_s (Suites_root (reportXUnitFormat_ts in_order result3))
                 = [''pipeline'', ''system'']"
    by code_simp
  then have ne: "Suites_root (reportXUnitFormat_ts in_order result3) \<noteq> []"
    by auto
  note t = reportXUnitFormat_counts [of in_order result3]
  from t [THEN conjunct1, THEN bspec, OF last_in_set [OF ne]]
       t [THEN conjunct2, rule_format, OF go_in_order] names
  show ?thesis
    by (simp add: result3_def insert_commute)
qed

text \<open>
  C9. A result with an empty \<open>FailureMsg\<close> and a non-empty \<open>FailureDetails\<close> has a case
  element, in the suite of its data stream, whose failure text is a colon, a space and
  the details; the failures count of every test-type suite is the number of the other
  results with a non-empty \<open>FailureMsg\<close>, so that result is not counted.
\<close>

theorem reportXUnitFormat_details_only:
  assumes "go_iteration it" and "r \<in> set results"
    and "FailureMsg r = ''''" and "FailureDetails r \<noteq> ''''"
  shows "(\<exists>tt\<in>set (Suites_root (reportXUnitFormat_ts it results)). Name_s tt = TestType r \<and>
          (\<exists>pk\<in>set (Suites tt). Name_s pk = Package r \<and>
            (\<exists>ds\<in>set (Suites pk). Name_s ds = DataStream r \<and>
              (\<exists>c\<in>set (Cases ds). Name_c c = Name r \<and> Failure c = '': '' @ FailureDetails r))))
       \<and> (\<forall>tt\<in>set (Suites_root (reportXUnitFormat_ts it results)).
            NumFailures tt = int (length (filter (\<lambda>x. FailureMsg x \<noteq> '''') (remove1 r results))))"
proof -
  have c: "xunit_case r \<in> set (map xunit_case
             (filter (in_group (TestType r) (Package r) (DataStream r)) results))"
    using assms(2) by (simp add: in_group_def)
  have n: "Name_c (xunit_case r) = Name r" "Failure (xunit_case r) = '': '' @ FailureDetails r"
    using assms(3,4) by (simp_all add: xunit_case_def)
  have f: "filter (\<lambda>x. FailureMsg x \<noteq> '''') (remove1 r results)
             = filter (\<lambda>x. FailureMsg x \<noteq> '''') results"
    using assms(3) by (induction results) auto
  from suite_of_result [OF assms(1,2)] c n have first: "\<exists>tt\<in>set (Suites_root (reportXUnitFormat_ts it results)). Name_s tt = TestType r \<and>
          (\<exists>pk\<in>set (Suites tt). Name_s pk = Package r \<and>
            (\<exists>ds\<in>set (Suites pk). Name_s ds = DataStream r \<and>
              (\<exists>c\<in>set (Cases ds). Name_c c = Name r \<and> Failure c = '': '' @ FailureDetails r)))"
    by metis
  have "\<forall>tt\<in>set (Suites_root (reportXUnitFormat_ts it results)).
            NumFailures tt = int (length (filter (\<lambda>x. FailureMsg x \<noteq> '''') (remove1 r results)))"
    unfolding f by (auto simp: ts_grouped testTypeSuites_def)
  with first show ?thesis by blast
qed


text \<open>A report of one such result: the failure text is \<open>: diff\<close> and the count is zero.\<close>

theorem reportXUnitFormat_details_only_witness:
  "FailureMsg details_only = '''' \<and> FailureDetails details_only \<noteq> ''''
   \<and> (\<exists>tt\<in>set (Suites_root (reportXUnitFormat_ts in_reverse [details_only])).
          Name_s tt = ''pipeline'' \<and>
          (\<exists>pk\<in>set (Suites tt). Name_s pk = ''apache'' \<and>
            (\<exists>ds\<in>set (Suites pk). Name_s ds = ''access'' \<and>
              (\<exists>c\<in>set (Cases ds). Name_c c = ''case1'' \<and> Failure c = '': diff''))))
   \<and> Suites_root (reportXUnitFormat_ts in_reverse [details_only]) \<noteq> []
   \<and> NumFailures (hd (Suites_root (reportXUnitFormat_ts in_reverse [details_only]))) = 0"
proof -
  have m: "details_only \<in> set [details_only]" by simp
  have f: "FailureMsg details_only = ''''" and d: "FailureDetails details_only \<noteq> ''''"
    by (simp_all add: details_only_def)
  have ne: "Suites_root (reportXUnitFormat_ts in_reverse [details_only]) \<noteq> []"
    by code_simp
  note t = reportXUnitFormat_details_only [OF go_in_reverse m f d]
  from t [THEN conjunct1] t [THEN conjunct2, THEN bspec, OF hd_in_set [OF ne]] f d ne
  show ?thesis
    by (simp add: details_only_def)
qed

text \<open>
  C6, as amended. When all results are of one test type, one package and one data
  stream, every map of the renderer has one key, and the output is the same for every
  order in which Go may visit the maps: rendering the sequence twice yields the same
  bytes.
\<close>

theorem reportXUnitFormat_single_group:
  assumes "go_iteration it1" and "go_iteration it2" and "\<forall>r\<in>set results. in_group t p d r"
  shows "reportXUnitFormat marshal it1 results = reportXUnitFormat marshal it2 results"
  using single_group_ts [OF assms(1,3)] single_group_ts [OF assms(2,3)]
  by (simp add: reportXUnitFormat_def)

text \<open>
  The claim as stated fails when a map has two keys: for two results of two packages,
  visiting the packages in one order and in the other gives two different documents.
\<close>

lemmas xml_eval =
  xml_MarshalIndent_def marshal_testCase_def marshal_comment_def marshal_string_def
  marshal_omitempty_def marshal_cases_def marshal_end_def testSuite_attrs_def
  writeEnd_def writeStart_def FormatInt_def escaped_def escape_of_def isInCharacterRange_def
  DecodeRune_def continuation_def writeIndent_def writeIndent_break_def writeIndent_spaces_def
  writeIndent_close_def writeIndent_open_def WriteString_def Let_def
theorem reportXUnitFormat_order_differs:
  "go_iteration in_order \<and> go_iteration in_reverse
   \<and> reportXUnitFormat xml_MarshalIndent in_order two_packages
       \<noteq> reportXUnitFormat xml_MarshalIndent in_reverse two_packages"
proof -
  let ?apache =
    "TestSuite ''test suite for package: apache'' ''apache'' 0 0 0
       [TestSuite ''test suite for data stream: access'' ''access'' 0 0 0 []
          [\<lparr>Name_c = ''case1'', ClassName = [], Time = 1500, Error = [], Failure = []\<rparr>]]
       []"
  let ?nginx =
    "TestSuite ''test suite for package: nginx'' ''nginx'' 0 0 0
       [TestSuite ''test suite for data stream: access'' ''access'' 0 0 0 []
          [\<lparr>Name_c = ''case2'', ClassName = [], Time = 20, Error = [], Failure = []\<rparr>]]
       []"
  have t_order: "reportXUnitFormat_ts in_order two_packages =
      \<lparr>Suites_root =
         [TestSuite ''test suite for pipeline tests'' ''pipeline'' 2 0 0 [?apache, ?nginx] []]\<rparr>"
    by code_simp
  have t_reverse: "reportXUnitFormat_ts in_reverse two_packages =
      \<lparr>Suites_root =
         [TestSuite ''test suite for pipeline tests'' ''pipeline'' 2 0 0 [?nginx, ?apache] []]\<rparr>"
    by code_simp
  have "reportXUnitFormat xml_MarshalIndent in_order two_packages
       \<noteq> reportXUnitFormat xml_MarshalIndent in_reverse two_packages"
    unfolding reportXUnitFormat_def t_order t_reverse
    by (simp add: xml_eval)
  with go_in_order go_in_reverse show ?thesis
    by simp
qed

text \<open>Two results of one data stream, visited in order and in reverse.\<close>

theorem reportXUnitFormat_single_group_witness:
  "go_iteration in_order \<and> go_iteration in_reverse
   \<and> list_all (in_group ''pipeline'' ''apache'' ''access'') one_group
   \<and> reportXUnitFormat xml_MarshalIndent in_order one_group
       = reportXUnitFormat xml_MarshalIndent in_reverse one_group"
proof -
  have g: "\<forall>r\<in>set one_group. in_group ''pipeline'' ''apache'' ''access'' r"
    by (simp add: one_group_def in_group_def)
  from reportXUnitFormat_single_group [OF go_in_order go_in_reverse g, of xml_MarshalIndent]
    g go_in_order go_in_reverse
  show ?thesis
    by (simp add: list_all_iff)
qed


section \<open>The placeholders of ReportXUnit\<close>

lemma length_update:
  "length (AList.update k v m) = (if k \<in> fst ` set m then length m else Suc (length m))"
  by (induction m) auto

lemma index_ensure_cases:
  "index (ensure_cases m a b) a' =
     (if a' = a
      then (if b \<in> fst ` set (index m a) then index m a
            else AList.update b [testCase_zero] (index m a))
      else index m a')"
  by (simp add: ensure_cases_def index_assign2 map_of_eq_None_iff)

lemma keys_ensure_cases:
  "a \<in> fst ` set m \<Longrightarrow> fst ` set (ensure_cases m a b) = fst ` set m"
  by (auto simp: ensure_cases_def keys_assign2)

lemma distinct_ensure_cases:
  "distinct (map fst (ensure_cases m a b)) = distinct (map fst m)"
  by (simp add: ensure_cases_def distinct_assign2)

lemma length_assign2:
  "a \<in> fst ` set m \<Longrightarrow> length (assign2 m a b v) = length m"
  by (simp add: assign2_def length_update)

lemma length_ensure_cases:
  "a \<in> fst ` set m \<Longrightarrow> length (ensure_cases m a b) = length m"
  by (simp add: ensure_cases_def length_assign2)

lemma length_ensure1:
  "length (ensure1 m a) = (if a \<in> fst ` set m then length m else Suc (length m))"
  by (simp add: ensure1_def length_update map_of_eq_None_iff)

lemma report_add_packages:
  "fst (ReportXUnit_add r (packages, n)) =
     (let m = ensure_cases (ensure1 packages (Package r)) (Package r) (DataStream r)
      in assign2 m (Package r) (DataStream r)
           (index (index m (Package r)) (DataStream r) @ [report_case r]))"
  unfolding ReportXUnit_add_def ensure1_def ensure_cases_def report_case_def Let_def
  by (cases "Package r \<in> fst ` set packages")
     (simp_all add: split_def map_of_eq_None_iff split del: if_split cong: if_cong)

lemma report_add_count:
  "snd (ReportXUnit_add r (packages, n)) = (if Package r \<in> fst ` set packages then n else n + 1)"
  by (simp add: ReportXUnit_add_def Let_def split_def map_of_eq_None_iff)

lemma report_add_length:
  "length (fst (ReportXUnit_add r (packages, n)))
     = (if Package r \<in> fst ` set packages then length packages else Suc (length packages))"
  by (simp add: report_add_packages Let_def length_assign2 keys_ensure_cases length_ensure_cases
        length_ensure1)

lemma report_add_keys1:
  "fst ` set (fst (ReportXUnit_add r (packages, n))) = insert (Package r) (fst ` set packages)"
  by (simp add: report_add_packages Let_def keys_assign2 keys_ensure_cases)

lemma report_add_keys2:
  "fst ` set (index (fst (ReportXUnit_add r (packages, n))) p) =
     (if p = Package r then insert (DataStream r) (fst ` set (index packages p))
      else fst ` set (index packages p))"
  by (simp add: report_add_packages Let_def index_assign2 index_ensure_cases keys_update)

lemma report_add_cases:
  "index (index (fst (ReportXUnit_add r (packages, n))) p) d =
     (if p = Package r \<and> d = DataStream r
      then (if d \<in> fst ` set (index packages p) then index (index packages p) d
            else [testCase_zero]) @ [report_case r]
      else index (index packages p) d)"
  by (simp add: report_add_packages Let_def index_assign2 index_ensure_cases index_update)

lemma report_add_distinct:
  "distinct (map fst (fst (ReportXUnit_add r (packages, n)))) = distinct (map fst packages)"
  "distinct (map fst (index (fst (ReportXUnit_add r (packages, n))) p))
     = distinct (map fst (index packages p))"
  by (simp_all add: report_add_packages Let_def index_assign2 index_ensure_cases
        distinct_assign2 distinct_ensure_cases distinct_update_iff)

lemma report_loop_snoc:
  "ReportXUnit_loop (rs @ [r]) st = ReportXUnit_add r (ReportXUnit_loop rs st)"
  by (induction rs arbitrary: st) simp_all

lemma packaged_snoc:
  "packaged (rs @ [r]) =
     fst (ReportXUnit_add r (packaged rs, snd (ReportXUnit_loop rs ([], 0))))"
  by (simp add: packaged_def report_loop_snoc)

lemma packaged_Nil: "packaged [] = []"
  by (simp add: packaged_def)

lemma packaged_keys1: "fst ` set (packaged rs) = Package ` set rs"
proof (induction rs rule: rev_induct)
  case Nil
  show ?case by (simp add: packaged_Nil)
next
  case (snoc r rs)
  then show ?case
    by (simp add: packaged_snoc report_add_keys1)
qed

lemma packaged_keys2:
  "fst ` set (index (packaged rs) p) = DataStream ` {r \<in> set rs. Package r = p}"
proof (induction rs rule: rev_induct)
  case Nil
  show ?case by (simp add: packaged_Nil)
next
  case (snoc r rs)
  then show ?case
    by (auto simp: packaged_snoc report_add_keys2)
qed

lemma packaged_distinct:
  "distinct (map fst (packaged rs))"
  "distinct (map fst (index (packaged rs) p))"
proof (induction rs rule: rev_induct)
  case Nil
  {
    case 1 show ?case by (simp add: packaged_Nil)
  next
    case 2 show ?case by (simp add: packaged_Nil)
  }
next
  case (snoc r rs)
  {
    case 1 show ?case using snoc by (simp add: packaged_snoc report_add_distinct)
  next
    case 2 show ?case using snoc by (simp add: packaged_snoc report_add_distinct)
  }
qed

lemma packaged_count: "snd (ReportXUnit_loop rs ([], 0)) = int (length (packaged rs))"
proof (induction rs rule: rev_induct)
  case Nil
  then show ?case by (simp add: packaged_def)
next
  case (snoc r rs)
  have "ReportXUnit_loop rs ([], 0) = (packaged rs, int (length (packaged rs)))"
    using snoc by (simp add: packaged_def prod_eq_iff)
  then have "ReportXUnit_loop (rs @ [r]) ([], 0) =
          ReportXUnit_add r (packaged rs, int (length (packaged rs)))"
    by (simp add: report_loop_snoc)
  then show ?case
    by (simp add: packaged_def [of "rs @ [r]"] report_add_count report_add_length)
qed

lemma packaged_cases:
  "index (index (packaged rs) p) d =
     (if d \<in> DataStream ` {r \<in> set rs. Package r = p}
      then testCase_zero # map report_case (filter (\<lambda>r. Package r = p \<and> DataStream r = d) rs)
      else [])"
proof (induction rs rule: rev_induct)
  case Nil
  then show ?case by (simp add: packaged_Nil)
next
  case (snoc r rs)
  let ?here = "\<lambda>x. Package x = p \<and> DataStream x = d"
  have seen: "d \<in> DataStream ` {x \<in> set xs. Package x = p} \<longleftrightarrow> (\<exists>x\<in>set xs. ?here x)" for xs
    by auto
  have step: "index (index (packaged (rs @ [r])) p) d =
     (if ?here r
      then (if \<exists>x\<in>set rs. ?here x then index (index (packaged rs) p) d
            else [testCase_zero]) @ [report_case r]
      else index (index (packaged rs) p) d)"
    unfolding packaged_snoc report_add_cases packaged_keys2 seen by auto
  show ?case
  proof (cases "\<exists>x\<in>set rs. ?here x")
    case True
    with snoc show ?thesis
      unfolding step seen by auto
  next
    case False
    then have "filter ?here rs = []"
      by (simp add: filter_empty_conv)
    with False snoc show ?thesis
      unfolding step seen by auto
  qed
qed

text \<open>
  C10. In the report of \<open>ReportXUnit\<close>, the root list of suites holds one empty
  placeholder suite per distinct package of the input, followed by one suite per
  package; each package suite holds one empty placeholder suite, followed by one suite
  per data stream of the package; and the cases of each data-stream suite are one
  zero-valued placeholder case, followed by one case per input result of that package
  and data stream, in input order. The packages and the data streams come in the order
  in which Go visits the maps.
\<close>

theorem ReportXUnit_placeholders:
  assumes "go_iteration it"
  shows "\<exists>pkgs dss.
           distinct pkgs \<and> set pkgs = Package ` set results
           \<and> (\<forall>p. distinct (dss p) \<and> set (dss p) = DataStream ` {r \<in> set results. Package r = p})
           \<and> Suites_root_r (ReportXUnit_ts it results) =
               replicate (length pkgs) testSuite_zero
               @ map (\<lambda>p. TestSuite_r
                             (testSuite_zero
                              # map (\<lambda>d. TestSuite_r []
                                           (testCase_zero
                                            # map report_case
                                                (filter (\<lambda>r. Package r = p \<and> DataStream r = d)
                                                   results)))
                                    (dss p))
                             [])
                     pkgs"
proof -
  let ?m = "packaged results"
  let ?pkgs = "it [] (map fst ?m)"
  let ?dss = "\<lambda>p. it [p] (map fst (index ?m p))"
  have mset: "mset (it path ks) = mset ks" for path ks
    using assms by (simp add: go_iteration_def)
  have d1: "distinct ?pkgs"
    using mset packaged_distinct(1) by (metis mset_eq_imp_distinct_iff)
  have s1: "set ?pkgs = Package ` set results"
    using assms by (simp add: go_iteration_set packaged_keys1 [symmetric])
  have d2: "distinct (?dss p)" for p
    using mset packaged_distinct(2) by (metis mset_eq_imp_distinct_iff)
  have s2: "set (?dss p) = DataStream ` {r \<in> set results. Package r = p}" for p
    using assms by (simp add: go_iteration_set packaged_keys2 [symmetric])
  have len: "nat (snd (ReportXUnit_loop results ([], 0))) = length ?pkgs"
    using assms by (simp add: packaged_count go_iteration_length)
  have loop: "ReportXUnit_loop results ([], 0) = (?m, snd (ReportXUnit_loop results ([], 0)))"
    by (simp add: packaged_def)
  have inner: "map (\<lambda>(dsName, ds). TestSuite_r [] ds) (map_range (it [p]) (index ?m p))
      = map (\<lambda>d. TestSuite_r []
                   (testCase_zero
                    # map report_case
                        (filter (\<lambda>r. Package r = p \<and> DataStream r = d) results)))
            (?dss p)" for p
    unfolding map_range_go [OF assms] map_map comp_def
    by (rule map_cong [OF refl]) (simp add: s2 packaged_cases)
  have outer: "map (\<lambda>(pkgName, pkg).
                      TestSuite_r
                        (replicate 1 testSuite_zero
                         @ map (\<lambda>(dsName, ds). TestSuite_r [] ds) (map_range (it [pkgName]) pkg))
                        [])
                   (map_range (it []) ?m)
      = map (\<lambda>p. TestSuite_r
                        (testSuite_zero
                         # map (\<lambda>d. TestSuite_r []
                                      (testCase_zero
                                       # map report_case
                                           (filter (\<lambda>r. Package r = p \<and> DataStream r = d)
                                              results)))
                               (?dss p))
                        [])
                ?pkgs"
    unfolding map_range_go [OF assms, of "[]"] map_map comp_def
    by (rule map_cong [OF refl]) (simp add: inner)
  have "Suites_root_r (ReportXUnit_ts it results) =
          replicate (nat (snd (ReportXUnit_loop results ([], 0)))) testSuite_zero
          @ map (\<lambda>(pkgName, pkg).
                      TestSuite_r
                        (replicate 1 testSuite_zero
                         @ map (\<lambda>(dsName, ds). TestSuite_r [] ds) (map_range (it [pkgName]) pkg))
                        [])
                   (map_range (it []) ?m)"
    by (simp add: ReportXUnit_ts_def packaged_def split_def)
  then have "Suites_root_r (ReportXUnit_ts it results) =
          replicate (length ?pkgs) testSuite_zero
          @ map (\<lambda>p. TestSuite_r
                        (testSuite_zero
                         # map (\<lambda>d. TestSuite_r []
                                      (testCase_zero
                                       # map report_case
                                           (filter (\<lambda>r. Package r = p \<and> DataStream r = d)
                                              results)))
                               (?dss p))
                        [])
                ?pkgs"
    by (simp only: len outer)
  with d1 s1 d2 s2 show ?thesis
    by (intro exI [where x = "?pkgs"] exI [where x = "?dss"] conjI allI)
qed

text \<open>
  Three results of two packages, one of which has two data streams: two placeholder
  suites at the root, one in each package suite, and one placeholder case in each of
  the three data-stream suites.
\<close>

theorem ReportXUnit_placeholders_witness:
  "go_iteration in_order
   \<and> Suites_root_r (ReportXUnit_ts in_order result3) =
       [testSuite_zero, testSuite_zero,
        TestSuite_r
          [testSuite_zero,
           TestSuite_r []
             [testCase_zero,
              \<lparr>Name_r = ''case1'', Time_r = 1500, Error_r = '''', Failure_r = ''''\<rparr>],
           TestSuite_r []
             [testCase_zero,
              \<lparr>Name_r = ''case3'', Time_r = 0, Error_r = ''engine is down'', Failure_r = ''''\<rparr>]]
          [],
        TestSuite_r
          [testSuite_zero,
           TestSuite_r []
             [testCase_zero,
              \<lparr>Name_r = ''case2'', Time_r = 20, Error_r = '''', Failure_r = ''test case failed''\<rparr>]]
          []]
   \<and> (\<exists>pkgs dss.
           distinct pkgs \<and> set pkgs = Package ` set result3
           \<and> (\<forall>p. distinct (dss p) \<and> set (dss p) = DataStream ` {r \<in> set result3. Package r = p})
           \<and> Suites_root_r (ReportXUnit_ts in_order result3) =
               replicate (length pkgs) testSuite_zero
               @ map (\<lambda>p. TestSuite_r
                             (testSuite_zero
                              # map (\<lambda>d. TestSuite_r []
                                           (testCase_zero
                                            # map report_case
                                                (filter (\<lambda>r. Package r = p \<and> DataStream r = d)
                                                   result3)))
                                    (dss p))
                             [])
                     pkgs)"
proof -
  have tree: "Suites_root_r (ReportXUnit_ts in_order result3) =
       [testSuite_zero, testSuite_zero,
        TestSuite_r
          [testSuite_zero,
           TestSuite_r []
             [testCase_zero,
              \<lparr>Name_r = ''case1'', Time_r = 1500, Error_r = '''', Failure_r = ''''\<rparr>],
           TestSuite_r []
             [testCase_zero,
              \<lparr>Name_r = ''case3'', Time_r = 0, Error_r = ''engine is down'', Failure_r = ''''\<rparr>]]
          [],
        TestSuite_r
          [testSuite_zero,
           TestSuite_r []
             [testCase_zero,
              \<lparr>Name_r = ''case2'', Time_r = 20, Error_r = '''', Failure_r = ''test case failed''\<rparr>]]
          []]"
    by code_simp
  from go_in_order tree ReportXUnit_placeholders [OF go_in_order, of result3]
  show ?thesis
    by (intro conjI)
qed

end
